theory Spec2Isabelle
  imports Main
begin

section \<open>Errors, results and formatting\<close>

text \<open>
  A Go \<open>error\<close> is a value with a message. \<open>errors.New\<close> and \<open>fmt.Errorf\<close> build
  an \<open>Error\<close> from the formatted text; \<open>HttpError\<close> is the struct of the package with
  its request dump, its response dump and the wrapped error.
\<close>

datatype error =
    Error string
  | HttpError string string error

text \<open>The \<open>Error()\<close> method; \<open>HttpError.Error()\<close> returns \<open>fcmError.Err.Error()\<close>.\<close>

fun Error_msg :: "error \<Rightarrow> string" where
  "Error_msg (Error s) = s"
| "Error_msg (HttpError rq rs e) = Error_msg e"

text \<open>
  Result of a function that may also panic (a nil pointer dereference): the returned
  value, the returned error, or the panic.
\<close>

datatype 'a result = Ok 'a | Err error | Panic

text \<open>\<open>fmt.Sprintf("%d", n)\<close> for a non-negative \<open>n\<close>: the decimal digits.\<close>

function show_nat :: "nat \<Rightarrow> string" where
  "show_nat n =
     (if n < 10 then [''0123456789'' ! n]
      else show_nat (n div 10) @ [''0123456789'' ! (n mod 10)])"
  by pat_completeness auto
termination
  by (relation "measure id") auto

declare show_nat.simps [simp del]

text \<open>Reading a decimal numeral: the number that a string of digits denotes.\<close>

definition digit_of :: "char \<Rightarrow> nat option" where
  "digit_of c = map_of (zip ''0123456789'' [0 ..< 10]) c"

fun read_nat_from :: "nat \<Rightarrow> string \<Rightarrow> nat option" where
  "read_nat_from n [] = Some n"
| "read_nat_from n (c # cs) =
     (case digit_of c of
        None \<Rightarrow> None
      | Some d \<Rightarrow> read_nat_from (10 * n + d) cs)"

definition read_nat :: "string \<Rightarrow> nat option" where
  "read_nat s = (if s = [] then None else read_nat_from 0 s)"

text \<open>\<open>fmt.Sprintf("%d", n)\<close> for a Go \<open>int\<close>.\<close>

definition show_int :: "int \<Rightarrow> string" where
  "show_int i = (if i < 0 then CHR ''-'' # show_nat (nat (- i)) else show_nat (nat i))"

definition maxMessages :: nat where
  "maxMessages = 500"

definition multipartBoundary :: string where
  "multipartBoundary = ''__END_OF_PART__''"

section \<open>Messages and multicast messages\<close>

text \<open>
  \<open>Message\<close> and the types of its fields are declared in another file of the package.
  The record has the fields that the batch code and the command line tool name:
  \<open>toMessages\<close> sets \<open>Token\<close>, \<open>Data\<close>, \<open>Notification\<close>, \<open>Android\<close>, \<open>Webpush\<close>
  and \<open>Apns\<close>; the command line tool sets \<open>Topic\<close>, \<open>Condition\<close> and a
  \<open>Notification\<close> with \<open>Title\<close> and \<open>Body\<close>. A pointer field is an option
  (\<open>None\<close> is \<open>nil\<close>); a field a composite literal leaves out has Go's zero value.
\<close>

typedecl AndroidConfig
typedecl WebpushConfig
typedecl ApnsConfig

record Notification =
  Title :: string
  Body :: string

record Message =
  Token :: string
  Topic :: string
  Condition :: string
  Data :: "string \<rightharpoonup> string"
  Notification :: "Notification option"
  Android :: "AndroidConfig option"
  Webpush :: "WebpushConfig option"
  Apns :: "ApnsConfig option"

record MulticastMessage =
  Tokens :: "string list"
  mm_Message :: "Message option"

text \<open>
  The loop of \<open>(*MulticastMessage).toMessages\<close>: one message per token, appended in
  token order. Each iteration reads \<open>mm.Message.Data\<close>, which panics when
  \<open>mm.Message\<close> is nil.
\<close>

fun toMessages_loop :: "Message option \<Rightarrow> string list \<Rightarrow> Message list \<Rightarrow> Message list result" where
  "toMessages_loop M [] messages = Ok messages"
| "toMessages_loop M (token # tokens) messages =
     (case M of
        None \<Rightarrow> Panic
      | Some msg \<Rightarrow>
          toMessages_loop M tokens
            (messages @
              [\<lparr>Token = token, Topic = [], Condition = [], Data = Data msg,
                Notification = Notification msg, Android = Android msg,
                Webpush = Webpush msg, Apns = Apns msg\<rparr>]))"

definition MulticastMessage_toMessages :: "MulticastMessage \<Rightarrow> Message list result" where
  "MulticastMessage_toMessages mm =
     (if length (Tokens mm) = 0 then Err (Error ''tokens must not be nil or empty'')
      else if length (Tokens mm) > maxMessages then
        Err (Error (''tokens must not contain more than '' @ show_nat maxMessages @ '' elements''))
      else toMessages_loop (mm_Message mm) (Tokens mm) [])"

text \<open>The package function \<open>toMessages\<close>; its argument is a pointer, \<open>None\<close> is nil.\<close>

definition toMessages :: "MulticastMessage option \<Rightarrow> Message list result" where
  "toMessages message =
     (case message of
        None \<Rightarrow> Err (Error ''message must not be nil'')
      | Some mm \<Rightarrow> MulticastMessage_toMessages mm)"

section \<open>HTTP messages and readers\<close>

type_synonym bytes = string

text \<open>\<open>http.Header\<close> and \<open>textproto.MIMEHeader\<close>: \<open>map[string][]string\<close>.\<close>

type_synonym Header = "string \<rightharpoonup> string list"

text \<open>
  An \<open>io.Reader\<close> over a received stream: the bytes it delivers, and then either the end
  of the stream (\<open>None\<close>) or a read error.
\<close>

datatype Reader = Reader bytes "error option"

text \<open>\<open>ioutil.ReadAll\<close>: the bytes up to the end of the stream, or the read error.\<close>

fun ReadAll :: "Reader \<Rightarrow> error + bytes" where
  "ReadAll (Reader b None) = Inr b"
| "ReadAll (Reader b (Some err)) = Inl err"

text \<open>An outbound \<open>http.Request\<close>; its body is an in-memory buffer.\<close>

record Request =
  req_Method :: string
  req_URL :: string
  req_Header :: Header
  req_Body :: bytes

record Response =
  StatusCode :: int
  Status :: string
  resp_Header :: Header
  resp_Body :: Reader

text \<open>
  What a \<open>multipart.Reader\<close> gives on successive calls of \<open>NextPart\<close>: a part, and then the
  rest; or \<open>io.EOF\<close>; or another error. A received body is finite and every part consumes
  a delimiter line of it, so the sequence is finite.
\<close>

datatype part_stream =
    EOF
  | NextErr error
  | NextPart Reader part_stream

record fcmResponse =
  Name :: string

section \<open>What the batch code calls\<close>

text \<open>
  The functions of Go's standard library that the batch code calls, and the \<open>Validate\<close>
  method of \<open>Message\<close> (declared with \<open>Message\<close>, in another file of the package), are
  parameters of the model. \<open>'m\<close> is the type of a message as the batch code handles it
  (a \<open>*Message\<close>, which the code only passes on), \<open>'b\<close> the type of a part's body.
  \<^item> \<open>NewRequest_error\<close>: the error of \<open>http.NewRequest\<close> for a method and a URL, if any;
  \<^item> \<open>Request_Write\<close>: \<open>(*http.Request).Write\<close> into a buffer;
  \<^item> \<open>ParseMediaType\<close>: \<open>mime.ParseMediaType\<close>, the media type and its parameters;
  \<^item> \<open>multipart_Reader\<close>: \<open>multipart.NewReader\<close> on a body and a boundary, read by \<open>NextPart\<close>;
  \<^item> \<open>ReadResponse\<close>: \<open>http.ReadResponse\<close> on a buffered part;
  \<^item> \<open>DumpRequest\<close>, \<open>DumpResponse\<close>: the dumps of \<open>httputil\<close>, with their error;
  \<^item> \<open>Errorf_verbatim\<close>: the message of \<open>fmt.Errorf(s)\<close> when \<open>s\<close> is used as the format
    string and there are no arguments;
  \<^item> \<open>SetBoundary_ok\<close>: whether \<open>(*multipart.Writer).SetBoundary\<close> accepts a boundary;
  \<^item> \<open>Writer_random_boundary\<close>: the boundary \<open>multipart.NewWriter\<close> picks;
  \<^item> \<open>Writer_output\<close>: what a closed \<open>multipart.Writer\<close> has written to its buffer, for
    its boundary and its parts.
\<close>

record ('m, 'b) Env =
  Validate :: "'m \<Rightarrow> error option"
  json_Marshal :: "'b \<Rightarrow> error + bytes"
  json_Unmarshal :: "bytes \<Rightarrow> error + fcmResponse"
  NewRequest_error :: "string \<Rightarrow> string \<Rightarrow> error option"
  Request_Write :: "Request \<Rightarrow> error + bytes"
  CanonicalMIMEHeaderKey :: "string \<Rightarrow> string"
  ParseMediaType :: "string \<Rightarrow> error + string \<times> (string \<rightharpoonup> string)"
  multipart_Reader :: "Reader \<Rightarrow> string \<Rightarrow> part_stream"
  ReadResponse :: "Reader \<Rightarrow> error + Response"
  DumpRequest :: "Request \<Rightarrow> bytes \<times> error option"
  DumpResponse :: "Response \<Rightarrow> bytes \<times> error option"
  Errorf_verbatim :: "string \<Rightarrow> string"
  SetBoundary_ok :: "string \<Rightarrow> bool"
  Writer_random_boundary :: string
  Writer_output :: "string \<Rightarrow> (Header \<times> bytes) list \<Rightarrow> bytes"

text \<open>\<open>Header.Set\<close>, \<open>Header.Add\<close> and \<open>Header.Get\<close>: the key is canonicalised first.\<close>

definition Header_Set :: "('m, 'b) Env \<Rightarrow> Header \<Rightarrow> string \<Rightarrow> string \<Rightarrow> Header" where
  "Header_Set L h key v = h(CanonicalMIMEHeaderKey L key \<mapsto> [v])"

definition Header_Add :: "('m, 'b) Env \<Rightarrow> Header \<Rightarrow> string \<Rightarrow> string \<Rightarrow> Header" where
  "Header_Add L h key v =
     h(CanonicalMIMEHeaderKey L key \<mapsto>
        (case h (CanonicalMIMEHeaderKey L key) of None \<Rightarrow> [] | Some vs \<Rightarrow> vs) @ [v])"

definition Header_Get :: "('m, 'b) Env \<Rightarrow> Header \<Rightarrow> string \<Rightarrow> string" where
  "Header_Get L h key =
     (case h (CanonicalMIMEHeaderKey L key) of
        None \<Rightarrow> []
      | Some [] \<Rightarrow> []
      | Some (v # vs) \<Rightarrow> v)"

text \<open>
  \<open>http.NewRequest\<close>: an error for a method or a URL it refuses; otherwise a request with
  that method (\<open>GET\<close> for the empty method), URL and body, and no header.
\<close>

definition http_NewRequest :: "('m, 'b) Env \<Rightarrow> string \<Rightarrow> string \<Rightarrow> bytes \<Rightarrow> error + Request" where
  "http_NewRequest L m u b =
     (case NewRequest_error L m u of
        Some err \<Rightarrow> Inl err
      | None \<Rightarrow>
          Inr \<lparr>req_Method = (if m = [] then ''GET'' else m), req_URL = u,
               req_Header = Map.empty, req_Body = b\<rparr>)"

section \<open>The client\<close>

text \<open>
  \<open>client_Do\<close> is \<open>c.client.Do\<close>, the transport; \<open>tokenProvider_token\<close> is what
  \<open>c.tokenProvider.token()\<close> returns when it is called.
\<close>

record Client =
  projectID :: string
  fcmEndpoint :: string
  batchEndpoint :: string
  sendEndpoint :: string
  client_Do :: "Request \<Rightarrow> error + Response"
  tokenProvider_token :: "error + string"

definition apiFormatVersionHeader :: string where
  "apiFormatVersionHeader = ''X-GOOG-API-FORMAT-VERSION''"

definition apiFormatVersion :: string where
  "apiFormatVersion = ''2''"

section \<open>Parts and the multipart entity\<close>

text \<open>
  \<open>part_headers\<close> is a Go map; the list holds its entries in the order in which the
  \<open>range\<close> loop of \<open>bytes\<close> visits them.
\<close>

record 'b part =
  part_method :: string
  part_url :: string
  part_headers :: "(string \<times> string) list"
  part_body :: 'b

record 'm fcmRequest =
  ValidateOnly :: bool
  fr_Message :: 'm

text \<open>
  \<open>SendResponse\<close> is declared with \<open>Message\<close>; these are the fields that
  \<open>newSendResponse\<close> sets, the others of a literal having Go's zero value.
\<close>

record SendResponse =
  Success :: bool
  MessageID :: string
  ErrorCode :: int
  ErrorBody :: string

record MulticastResponse =
  SuccessCount :: int
  FailureCount :: int
  Responses :: "SendResponse list"

text \<open>The request that \<open>(*part).bytes\<close> builds and hands to \<open>req.Write\<close>.\<close>

definition part_request :: "('m, 'b) Env \<Rightarrow> 'b part \<Rightarrow> error + Request" where
  "part_request L p =
     (case json_Marshal L (part_body p) of
        Inl err \<Rightarrow> Inl err
      | Inr b \<Rightarrow>
          (case http_NewRequest L (part_method p) (part_url p) b of
             Inl err \<Rightarrow> Inl err
           | Inr req \<Rightarrow>
               Inr (req\<lparr>req_Header :=
                 Header_Set L
                   (Header_Set L
                     (fold (\<lambda>(key, v) h. Header_Set L h key v) (part_headers p) (req_Header req))
                     ''Content-Type'' ''application/json; charset=UTF-8'')
                   ''User-Agent'' []\<rparr>)))"

definition part_bytes :: "('m, 'b) Env \<Rightarrow> 'b part \<Rightarrow> error + bytes" where
  "part_bytes L p =
     (case part_request L p of
        Inl err \<Rightarrow> Inl err
      | Inr req \<Rightarrow> Request_Write L req)"

text \<open>
  A \<open>multipart.Writer\<close> on a \<open>bytes.Buffer\<close>: its boundary and the parts created so far,
  each with its header and the bytes written to it. Writing to the buffer does not fail.
\<close>

record Writer =
  w_boundary :: string
  w_parts :: "(Header \<times> bytes) list"

definition NewWriter :: "('m, 'b) Env \<Rightarrow> Writer" where
  "NewWriter L = \<lparr>w_boundary = Writer_random_boundary L, w_parts = []\<rparr>"

text \<open>\<open>SetBoundary\<close>; the caller drops its error, and a refused boundary leaves the writer as it is.\<close>

definition SetBoundary :: "('m, 'b) Env \<Rightarrow> Writer \<Rightarrow> string \<Rightarrow> Writer" where
  "SetBoundary L w b = (if w_parts w = [] \<and> SetBoundary_ok L b then w\<lparr>w_boundary := b\<rparr> else w)"

text \<open>\<open>(*part).writeTo\<close>: \<open>CreatePart\<close> with the four headers, then \<open>Write\<close> of the encoded request.\<close>

definition part_header :: "('m, 'b) Env \<Rightarrow> bytes \<Rightarrow> nat \<Rightarrow> Header" where
  "part_header L b idx =
     Header_Add L
       (Header_Add L
         (Header_Add L
           (Header_Add L Map.empty ''Content-Length'' (show_nat (length b)))
           ''Content-Type'' ''application/http'')
         ''Content-Id'' (show_nat (idx + 1)))
       ''Content-Transfer-Encoding'' ''binary''"

definition part_writeTo :: "('m, 'b) Env \<Rightarrow> 'b part \<Rightarrow> Writer \<Rightarrow> nat \<Rightarrow> error + Writer" where
  "part_writeTo L p writer idx =
     (case part_bytes L p of
        Inl err \<Rightarrow> Inl err
      | Inr b \<Rightarrow> Inr (writer\<lparr>w_parts := w_parts writer @ [(part_header L b idx, b)]\<rparr>))"

definition multipartEntity_Mime :: string where
  "multipartEntity_Mime = ''multipart/mixed; boundary='' @ multipartBoundary"

text \<open>The loop of \<open>(*multipartEntity).Bytes\<close> over the parts, with its index.\<close>

fun writeParts :: "('m, 'b) Env \<Rightarrow> 'b part list \<Rightarrow> nat \<Rightarrow> Writer \<Rightarrow> error + Writer" where
  "writeParts L [] idx writer = Inr writer"
| "writeParts L (p # ps) idx writer =
     (case part_writeTo L p writer idx of
        Inl err \<Rightarrow> Inl err
      | Inr writer' \<Rightarrow> writeParts L ps (idx + 1) writer')"

text \<open>The writer of \<open>Bytes\<close> when the loop is over, before \<open>Close\<close>.\<close>

definition multipartEntity_Writer :: "('m, 'b) Env \<Rightarrow> 'b part list \<Rightarrow> error + Writer" where
  "multipartEntity_Writer L ps = writeParts L ps 0 (SetBoundary L (NewWriter L) multipartBoundary)"

definition multipartEntity_Bytes :: "('m, 'b) Env \<Rightarrow> 'b part list \<Rightarrow> error + bytes" where
  "multipartEntity_Bytes L ps =
     (case multipartEntity_Writer L ps of
        Inl err \<Rightarrow> Inl err
      | Inr writer \<Rightarrow> Inr (Writer_output L (w_boundary writer) (w_parts writer)))"

section \<open>The batch request\<close>

text \<open>
  The steps of a batch call that are observed from outside, in the order in which the
  code takes them: the outer request is constructed (\<open>http.NewRequest\<close> on the batch
  endpoint), the token provider is asked for a token, the request is handed to the
  transport.
\<close>

datatype event =
    EvNewRequest string string
  | EvToken
  | EvDo Request

text \<open>The requests that reached the transport.\<close>

fun transport_calls :: "event list \<Rightarrow> Request list" where
  "transport_calls [] = []"
| "transport_calls (EvDo r # es) = r # transport_calls es"
| "transport_calls (e # es) = transport_calls es"

text \<open>
  The loop of \<open>newBatchRequest\<close> over the messages: a message that fails \<open>Validate\<close> ends
  the function with an error that names its index; a valid one becomes a part.
\<close>

fun newBatchRequest_parts ::
  "('m, 'm fcmRequest) Env \<Rightarrow> Client \<Rightarrow> bool \<Rightarrow> nat \<Rightarrow> 'm list \<Rightarrow> 'm fcmRequest part list \<Rightarrow>
   error + 'm fcmRequest part list" where
  "newBatchRequest_parts L c dryRun idx [] parts = Inr parts"
| "newBatchRequest_parts L c dryRun idx (m # ms) parts =
     (case Validate L m of
        Some err \<Rightarrow>
          Inl (Error (''invalid message at index '' @ show_nat idx @ '': '' @ Error_msg err))
      | None \<Rightarrow>
          newBatchRequest_parts L c dryRun (idx + 1) ms
            (parts @
              [\<lparr>part_method = ''POST'', part_url = sendEndpoint c,
                part_headers = [(apiFormatVersionHeader, apiFormatVersion)],
                part_body = \<lparr>ValidateOnly = dryRun, fr_Message = m\<rparr>\<rparr>]))"

definition newBatchRequest ::
  "('m, 'm fcmRequest) Env \<Rightarrow> Client \<Rightarrow> 'm list \<Rightarrow> bool \<Rightarrow> event list \<times> (error + Request)" where
  "newBatchRequest L c messages dryRun =
     (case newBatchRequest_parts L c dryRun 0 messages [] of
        Inl err \<Rightarrow> ([], Inl err)
      | Inr parts \<Rightarrow>
          (case multipartEntity_Bytes L parts of
             Inl err \<Rightarrow> ([], Inl err)
           | Inr bodyBytes \<Rightarrow>
               (case http_NewRequest L ''POST'' (batchEndpoint c) bodyBytes of
                  Inl err \<Rightarrow> ([EvNewRequest ''POST'' (batchEndpoint c)], Inl err)
                | Inr req \<Rightarrow>
                    (case tokenProvider_token c of
                       Inl err \<Rightarrow> ([EvNewRequest ''POST'' (batchEndpoint c), EvToken], Inl err)
                     | Inr token \<Rightarrow>
                         ([EvNewRequest ''POST'' (batchEndpoint c), EvToken],
                          Inr (req\<lparr>req_Header :=
                            Header_Add L
                              (Header_Add L (req_Header req) ''Authorization'' (''Bearer '' @ token))
                              ''Content-Type'' multipartEntity_Mime\<rparr>))))))"

text \<open>The part that the loop of \<open>newBatchRequest\<close> builds for a message.\<close>

definition batch_part :: "Client \<Rightarrow> bool \<Rightarrow> 'm \<Rightarrow> 'm fcmRequest part" where
  "batch_part c dryRun m =
     \<lparr>part_method = ''POST'', part_url = sendEndpoint c,
      part_headers = [(apiFormatVersionHeader, apiFormatVersion)],
      part_body = \<lparr>ValidateOnly = dryRun, fr_Message = m\<rparr>\<rparr>"

section \<open>The batch response\<close>

definition newSendResponse :: "('m, 'b) Env \<Rightarrow> Reader \<Rightarrow> error + SendResponse" where
  "newSendResponse L part =
     (case ReadResponse L part of
        Inl err \<Rightarrow> Inl (Error (''error parsing multipart body: '' @ Error_msg err))
      | Inr hr \<Rightarrow>
          (case ReadAll (resp_Body hr) of
             Inl err \<Rightarrow> Inl err
           | Inr b \<Rightarrow>
               if StatusCode hr \<noteq> 200 then
                 Inr \<lparr>Success = False, MessageID = [], ErrorCode = StatusCode hr, ErrorBody = b\<rparr>
               else
                 (case json_Unmarshal L b of
                    Inl err \<Rightarrow> Inl err
                  | Inr res \<Rightarrow>
                      Inr \<lparr>Success = True, MessageID = Name res, ErrorCode = 0, ErrorBody = []\<rparr>)))"

text \<open>
  The loop of \<open>newBatchResponse\<close>: \<open>io.EOF\<close> ends it, any other error of \<open>NextPart\<close> or
  of \<open>newSendResponse\<close> ends the function.
\<close>

fun newBatchResponse_loop ::
  "('m, 'b) Env \<Rightarrow> part_stream \<Rightarrow> SendResponse list \<Rightarrow> int \<Rightarrow> error + SendResponse list \<times> int" where
  "newBatchResponse_loop L EOF responses successCount = Inr (responses, successCount)"
| "newBatchResponse_loop L (NextErr err) responses successCount = Inl err"
| "newBatchResponse_loop L (NextPart part mr) responses successCount =
     (case newSendResponse L part of
        Inl err \<Rightarrow> Inl err
      | Inr sr \<Rightarrow>
          newBatchResponse_loop L mr (responses @ [sr])
            (if Success sr then successCount + 1 else successCount))"

text \<open>\<open>params["boundary"]\<close>: the empty string when the map has no such key.\<close>

definition boundary_param :: "(string \<rightharpoonup> string) \<Rightarrow> string" where
  "boundary_param params = (case params ''boundary'' of None \<Rightarrow> [] | Some b \<Rightarrow> b)"

definition newBatchResponse :: "('m, 'b) Env \<Rightarrow> Response \<Rightarrow> error + MulticastResponse" where
  "newBatchResponse L resp =
     (case ParseMediaType L (Header_Get L (resp_Header resp) ''Content-Type'') of
        Inl err \<Rightarrow> Inl (Error (''error parsing content-type header: '' @ Error_msg err))
      | Inr (mediatype, params) \<Rightarrow>
          (case newBatchResponse_loop L
                  (multipart_Reader L (resp_Body resp) (boundary_param params)) [] 0 of
             Inl err \<Rightarrow> Inl err
           | Inr (responses, successCount) \<Rightarrow>
               Inr \<lparr>SuccessCount = successCount,
                    FailureCount = int (length responses) - successCount,
                    Responses = responses\<rparr>))"

section \<open>The message identifier of a single send\<close>

text \<open>
  The end of \<open>(*Client).send\<close>, the function that sends one message: the decoded
  \<open>name\<close> has the format \<open>projects/*/messages/{message_id}\<close>, and the function returns
  what follows its last slash. \<open>strings.LastIndex\<close> is \<open>-1\<close> when there is no slash.
\<close>

definition LastIndex_slash :: "string \<Rightarrow> int" where
  "LastIndex_slash s =
     (if CHR ''/'' \<notin> set s then - 1
      else int (length s) - 1 - int (length (takeWhile (\<lambda>c. c \<noteq> CHR ''/'') (rev s))))"

definition send_messageID :: "string \<Rightarrow> string" where
  "send_messageID name =
     (if int (length name) > LastIndex_slash name
      then drop (nat (LastIndex_slash name + 1)) name
      else [])"

section \<open>Sending a batch\<close>

definition sendBatch ::
  "('m, 'm fcmRequest) Env \<Rightarrow> Client \<Rightarrow> 'm list \<Rightarrow> bool \<Rightarrow> event list \<times> (error + MulticastResponse)" where
  "sendBatch L c messages dryRun =
     (if length messages = 0 then ([], Inl (Error ''messages must not be nil or empty''))
      else if length messages > maxMessages then
        ([], Inl (Error (''messages must not contain more than '' @ show_nat maxMessages @ '' elements'')))
      else
        (case newBatchRequest L c messages dryRun of
           (tr, Inl err) \<Rightarrow> (tr, Inl err)
         | (tr, Inr request) \<Rightarrow>
             (case client_Do c request of
                Inl err \<Rightarrow> (tr @ [EvDo request], Inl err)
              | Inr resp \<Rightarrow>
                  if StatusCode resp \<noteq> 200 then
                    (if StatusCode resp \<ge> 500 then
                       (tr @ [EvDo request],
                        Inl (HttpError (fst (DumpRequest L request)) (fst (DumpResponse L resp))
                          (Error (Errorf_verbatim L
                            (show_int (StatusCode resp) @ '' error: '' @ Status resp)))))
                     else
                       (tr @ [EvDo request],
                        Inl (HttpError (fst (DumpRequest L request)) (fst (DumpResponse L resp))
                          (Error (show_int (StatusCode resp) @ '' error: '' @ Status resp)))))
                  else (tr @ [EvDo request], newBatchResponse L resp))))"

definition SendAll ::
  "('m, 'm fcmRequest) Env \<Rightarrow> Client \<Rightarrow> 'm list \<Rightarrow> event list \<times> (error + MulticastResponse)" where
  "SendAll L c messages = sendBatch L c messages False"

definition SendAllDryRun ::
  "('m, 'm fcmRequest) Env \<Rightarrow> Client \<Rightarrow> 'm list \<Rightarrow> event list \<times> (error + MulticastResponse)" where
  "SendAllDryRun L c messages = sendBatch L c messages True"

text \<open>
  \<open>SendMulticast\<close> and \<open>SendMulticastDryRun\<close>: the messages of \<open>toMessages\<close> go to
  \<open>SendAll\<close> and \<open>SendAllDryRun\<close>; its error is returned as it is.
\<close>

definition SendMulticast ::
  "(Message, Message fcmRequest) Env \<Rightarrow> Client \<Rightarrow> MulticastMessage option \<Rightarrow>
   event list \<times> MulticastResponse result" where
  "SendMulticast L c message =
     (case toMessages message of
        Panic \<Rightarrow> ([], Panic)
      | Err err \<Rightarrow> ([], Err err)
      | Ok messages \<Rightarrow>
          (case SendAll L c messages of
             (tr, Inl err) \<Rightarrow> (tr, Err err)
           | (tr, Inr r) \<Rightarrow> (tr, Ok r)))"

definition SendMulticastDryRun ::
  "(Message, Message fcmRequest) Env \<Rightarrow> Client \<Rightarrow> MulticastMessage option \<Rightarrow>
   event list \<times> MulticastResponse result" where
  "SendMulticastDryRun L c message =
     (case toMessages message of
        Panic \<Rightarrow> ([], Panic)
      | Err err \<Rightarrow> ([], Err err)
      | Ok messages \<Rightarrow>
          (case SendAllDryRun L c messages of
             (tr, Inl err) \<Rightarrow> (tr, Err err)
           | (tr, Inr r) \<Rightarrow> (tr, Ok r)))"

section \<open>Reading a part stream\<close>

text \<open>The parts a stream delivers before it ends, and how it ends (\<open>None\<close> is \<open>io.EOF\<close>).\<close>

fun stream_parts :: "part_stream \<Rightarrow> Reader list" where
  "stream_parts EOF = []"
| "stream_parts (NextErr err) = []"
| "stream_parts (NextPart part mr) = part # stream_parts mr"

fun stream_end :: "part_stream \<Rightarrow> error option" where
  "stream_end EOF = None"
| "stream_end (NextErr err) = Some err"
| "stream_end (NextPart part mr) = stream_end mr"

text \<open>
  A part is well formed when it parses as an HTTP response, its body can be read, and,
  for status 200, the body is JSON that decodes.
\<close>

definition well_formed_part :: "('m, 'b) Env \<Rightarrow> Reader \<Rightarrow> bool" where
  "well_formed_part L part =
     (case ReadResponse L part of
        Inl err \<Rightarrow> False
      | Inr hr \<Rightarrow>
          (case ReadAll (resp_Body hr) of
             Inl err \<Rightarrow> False
           | Inr b \<Rightarrow>
               if StatusCode hr \<noteq> 200 then True
               else (case json_Unmarshal L b of Inl err \<Rightarrow> False | Inr res \<Rightarrow> True)))"

section \<open>HTTP/1.1 requests on the wire\<close>

text \<open>
  The layout that \<open>(*http.Request).Write\<close> gives a request: the request line with the
  method and the request URI, the \<open>Host\<close> line, the header lines, an empty line, the body.
  Lines end with CR LF.
\<close>

definition crlf :: string where
  "crlf = [CHR 0x0D, CHR 0x0A]"

definition header_line :: "string \<times> string \<Rightarrow> string" where
  "header_line kv = fst kv @ '': '' @ snd kv @ crlf"

definition http11_request ::
  "string \<Rightarrow> string \<Rightarrow> string \<Rightarrow> (string \<times> string) list \<Rightarrow> bytes \<Rightarrow> bytes" where
  "http11_request m ruri host hlines b =
     m @ '' '' @ ruri @ '' HTTP/1.1'' @ crlf @
     header_line (''Host'', host) @ concat (map header_line hlines) @ crlf @ b"

text \<open>
  \<open>http.ReadRequest\<close>, for a request in origin form with a \<open>Content-Length\<close> or no
  body. A line ends at a line feed, and a carriage return before it is dropped; a header
  line is cut at its first colon, and the value loses the blanks around it; the header
  keys are stored in canonical form; the \<open>Host\<close> header moves to the \<open>Host\<close> field; the
  body is as long as \<open>Content-Length\<close> says.
\<close>

definition take_line :: "string \<Rightarrow> (string \<times> string) option" where
  "take_line s =
     (if CHR 0x0A \<notin> set s then None
      else
        Some (let l = takeWhile (\<lambda>c. c \<noteq> CHR 0x0A) s
              in if l \<noteq> [] \<and> last l = CHR 0x0D then butlast l else l,
              tl (dropWhile (\<lambda>c. c \<noteq> CHR 0x0A) s)))"

definition trim_blanks :: "string \<Rightarrow> string" where
  "trim_blanks v =
     rev (dropWhile (\<lambda>c. c = CHR '' '' \<or> c = CHR 0x09)
       (rev (dropWhile (\<lambda>c. c = CHR '' '' \<or> c = CHR 0x09) v)))"

definition split_header :: "string \<Rightarrow> (string \<times> string) option" where
  "split_header l =
     (if CHR '':'' \<notin> set l \<or> takeWhile (\<lambda>c. c \<noteq> CHR '':'') l = [] then None
      else Some (takeWhile (\<lambda>c. c \<noteq> CHR '':'') l,
                 trim_blanks (tl (dropWhile (\<lambda>c. c \<noteq> CHR '':'') l))))"

function read_header_lines :: "string \<Rightarrow> ((string \<times> string) list \<times> string) option" where
  "read_header_lines s =
     (case take_line s of
        None \<Rightarrow> None
      | Some (l, rest) \<Rightarrow>
          if l = [] then Some ([], rest)
          else
            (case split_header l of
               None \<Rightarrow> None
             | Some kv \<Rightarrow>
                 (case read_header_lines rest of
                    None \<Rightarrow> None
                  | Some (kvs, body) \<Rightarrow> Some (kv # kvs, body))))"
  by pat_completeness auto
termination
proof (relation "measure length")
  show "wf (measure length)" by simp
next
  fix s :: string and x2 l rest
  assume "take_line s = Some x2" and "(l, rest) = x2"
  then have "rest = tl (dropWhile (\<lambda>c. c \<noteq> CHR 0x0A) s)" and "s \<noteq> []"
    by (auto simp: take_line_def split: if_splits)
  moreover have "length (dropWhile (\<lambda>c. c \<noteq> CHR 0x0A) s) \<le> length s"
    by (rule length_dropWhile_le)
  ultimately show "(rest, s) \<in> measure length"
    by (cases s) auto
qed

declare read_header_lines.simps [simp del]

record ParsedRequest =
  pr_Method :: string
  pr_RequestURI :: string
  pr_Proto :: string
  pr_Host :: string
  pr_Header :: Header
  pr_Body :: Reader

definition request_body :: "('m, 'b) Env \<Rightarrow> Header \<Rightarrow> bytes \<Rightarrow> error + Reader" where
  "request_body L h rest =
     (case h (CanonicalMIMEHeaderKey L ''Content-Length'') of
        None \<Rightarrow> Inr (Reader [] None)
      | Some [v] \<Rightarrow>
          (case read_nat v of
             None \<Rightarrow> Inl (Error ''bad Content-Length'')
           | Some n \<Rightarrow>
               Inr (Reader (take n rest)
                     (if length rest < n then Some (Error ''unexpected EOF'') else None)))
      | Some vs \<Rightarrow> Inl (Error ''bad Content-Length''))"

definition ReadRequest :: "('m, 'b) Env \<Rightarrow> bytes \<Rightarrow> error + ParsedRequest" where
  "ReadRequest L bs =
     (case take_line bs of
        None \<Rightarrow> Inl (Error ''unexpected EOF'')
      | Some (rl, rest) \<Rightarrow>
          let m = takeWhile (\<lambda>c. c \<noteq> CHR '' '') rl;
              r1 = tl (dropWhile (\<lambda>c. c \<noteq> CHR '' '') rl);
              ruri = takeWhile (\<lambda>c. c \<noteq> CHR '' '') r1;
              proto = tl (dropWhile (\<lambda>c. c \<noteq> CHR '' '') r1)
          in
            if CHR '' '' \<notin> set rl \<or> CHR '' '' \<notin> set r1 \<or> m = [] then
              Inl (Error ''malformed HTTP request'')
            else if proto \<noteq> ''HTTP/1.1'' \<and> proto \<noteq> ''HTTP/1.0'' then
              Inl (Error ''malformed HTTP version'')
            else if take 1 ruri \<noteq> ''/'' then Inl (Error ''invalid URI for request'')
            else
              (case read_header_lines rest of
                 None \<Rightarrow> Inl (Error ''malformed MIME header'')
               | Some (kvs, body) \<Rightarrow>
                   (case request_body L
                           (fold (\<lambda>(key, v) h. Header_Add L h key v) kvs Map.empty) body of
                      Inl err \<Rightarrow> Inl err
                    | Inr rd \<Rightarrow>
                        Inr \<lparr>pr_Method = m, pr_RequestURI = ruri, pr_Proto = proto,
                             pr_Host =
                               Header_Get L
                                 (fold (\<lambda>(key, v) h. Header_Add L h key v) kvs Map.empty) ''Host'',
                             pr_Header =
                               (fold (\<lambda>(key, v) h. Header_Add L h key v) kvs Map.empty)
                                 (CanonicalMIMEHeaderKey L ''Host'' := None),
                             pr_Body = rd\<rparr>)))"

section \<open>Facts of the standard library that properties rely on\<close>

text \<open>
  \<open>mime/multipart\<close> refuses to read with an empty boundary: \<open>NextPart\<close> returns the error
  "multipart: boundary is empty".
\<close>

definition rejects_empty_boundary :: "('m, 'b) Env \<Rightarrow> bool" where
  "rejects_empty_boundary L = (\<forall>body. \<exists>err. multipart_Reader L body [] = NextErr err)"

text \<open>
  The names of the four part headers are in canonical form already, so \<open>Add\<close> stores them
  under these names; and \<open>SetBoundary\<close> accepts the boundary of the package, which is 15
  characters long, all of them capital letters and underscores.
\<close>

definition writer_facts :: "('m, 'b) Env \<Rightarrow> bool" where
  "writer_facts L =
     (CanonicalMIMEHeaderKey L ''Content-Length'' = ''Content-Length'' \<and>
      CanonicalMIMEHeaderKey L ''Content-Type'' = ''Content-Type'' \<and>
      CanonicalMIMEHeaderKey L ''Content-Id'' = ''Content-Id'' \<and>
      CanonicalMIMEHeaderKey L ''Content-Transfer-Encoding'' = ''Content-Transfer-Encoding'' \<and>
      SetBoundary_ok L multipartBoundary)"

text \<open>
  \<open>(*http.Request).Write\<close> on a request as \<open>(*part).bytes\<close> builds it for the parts of
  a batch: the method \<open>POST\<close>, an \<open>https\<close> URL with a host and a path, the version header,
  the content type, and an empty \<open>User-Agent\<close>. The request line has the path, not the
  URL; the host is in the \<open>Host\<close> line; an empty \<open>User-Agent\<close> is not written;
  \<open>Content-Length\<close> comes next, with the length of the body; the other headers follow,
  sorted by their keys. The names of these headers are in canonical form, and the
  canonical form of the version header's name has small letters.
\<close>

definition host_name :: "string \<Rightarrow> bool" where
  "host_name host =
     (host \<noteq> [] \<and> list_all (\<lambda>c. c \<in> set ''abcdefghijklmnopqrstuvwxyz0123456789-.'') host)"

definition url_path :: "string \<Rightarrow> bool" where
  "url_path path =
     (take 1 path = ''/'' \<and>
      list_all (\<lambda>c. c \<in> set ''ABCDEFGHIJKLMNOPQRSTUVWXYZabcdefghijklmnopqrstuvwxyz0123456789-._~/:'') path)"

text \<open>
  A header field that is read back as it was written: a name without a colon, and a value
  without blanks around it, both on one line and not empty.
\<close>

definition header_field :: "string \<times> string \<Rightarrow> bool" where
  "header_field kv =
     (fst kv \<noteq> [] \<and> CHR '':'' \<notin> set (fst kv) \<and> CHR 0x0A \<notin> set (fst kv) \<and>
      snd kv \<noteq> [] \<and> CHR 0x0A \<notin> set (snd kv) \<and>
      hd (snd kv) \<noteq> CHR '' '' \<and> hd (snd kv) \<noteq> CHR 0x09 \<and>
      last (snd kv) \<noteq> CHR '' '' \<and> last (snd kv) \<noteq> CHR 0x09 \<and> last (snd kv) \<noteq> CHR 0x0D)"

definition request_writer_facts :: "('m, 'b) Env \<Rightarrow> bool" where
  "request_writer_facts L =
     (CanonicalMIMEHeaderKey L apiFormatVersionHeader = ''X-Goog-Api-Format-Version'' \<and>
      CanonicalMIMEHeaderKey L ''X-Goog-Api-Format-Version'' = ''X-Goog-Api-Format-Version'' \<and>
      CanonicalMIMEHeaderKey L ''Content-Type'' = ''Content-Type'' \<and>
      CanonicalMIMEHeaderKey L ''Content-Length'' = ''Content-Length'' \<and>
      CanonicalMIMEHeaderKey L ''User-Agent'' = ''User-Agent'' \<and>
      CanonicalMIMEHeaderKey L ''Host'' = ''Host'' \<and>
      (\<forall>host path b.
         host_name host \<and> url_path path \<longrightarrow>
         Request_Write L
           \<lparr>req_Method = ''POST'', req_URL = ''https://'' @ host @ path,
            req_Header = [''X-Goog-Api-Format-Version'' \<mapsto> [apiFormatVersion],
                          ''Content-Type'' \<mapsto> [''application/json; charset=UTF-8''],
                          ''User-Agent'' \<mapsto> [[]]],
            req_Body = b\<rparr>
         = Inr (http11_request ''POST'' path host
                 [(''Content-Length'', show_nat (length b)),
                  (''Content-Type'', ''application/json; charset=UTF-8''),
                  (''X-Goog-Api-Format-Version'', apiFormatVersion)] b)))"

section \<open>A test double of the environment\<close>

text \<open>
  Small stand-ins for the library functions, enough to run the model on concrete calls.
  Lines end with CR LF. A multipart body has a delimiter line before each part and a
  closing delimiter line; a part starts with its header lines and an empty line. An
  embedded response is a status line, header lines, an empty line and the body, which
  goes on to the end of the part.
\<close>

fun strip_prefix :: "string \<Rightarrow> string \<Rightarrow> string option" where
  "strip_prefix [] s = Some s"
| "strip_prefix (p # ps) [] = None"
| "strip_prefix (p # ps) (c # cs) = (if p = c then strip_prefix ps cs else None)"

fun split_lines_from :: "string \<Rightarrow> string \<Rightarrow> string list" where
  "split_lines_from cur [] = [cur]"
| "split_lines_from cur [c] = [cur @ [c]]"
| "split_lines_from cur (c # d # cs) =
     (if c = CHR 0x0D \<and> d = CHR 0x0A then cur # split_lines_from [] cs
      else split_lines_from (cur @ [c]) (d # cs))"

fun join_lines :: "string list \<Rightarrow> string" where
  "join_lines [] = []"
| "join_lines [l] = l"
| "join_lines (l # ls) = l @ [CHR 0x0D, CHR 0x0A] @ join_lines ls"

text \<open>
  The parts of a body, line by line. \<open>cur\<close> is \<open>None\<close> before the first delimiter line,
  \<open>Some (False, [])\<close> in the header of a part, and \<open>Some (True, ls)\<close> in its content,
  of which \<open>ls\<close> are the lines read so far.
\<close>

fun fake_parts ::
  "string \<Rightarrow> error option \<Rightarrow> string list \<Rightarrow> (bool \<times> string list) option \<Rightarrow> part_stream" where
  "fake_parts d rerr [] cur =
     NextErr (case rerr of None \<Rightarrow> Error ''multipart: NextPart: EOF'' | Some err \<Rightarrow> err)"
| "fake_parts d rerr (l # ls) cur =
     (if l = ''--'' @ d @ ''--'' then
        (case cur of None \<Rightarrow> EOF | Some (inbody, p) \<Rightarrow> NextPart (Reader (join_lines p) None) EOF)
      else if l = ''--'' @ d then
        (case cur of
           None \<Rightarrow> fake_parts d rerr ls (Some (False, []))
         | Some (inbody, p) \<Rightarrow>
             NextPart (Reader (join_lines p) None) (fake_parts d rerr ls (Some (False, []))))
      else
        (case cur of
           None \<Rightarrow> fake_parts d rerr ls None
         | Some (inbody, p) \<Rightarrow>
             if inbody then fake_parts d rerr ls (Some (True, p @ [l]))
             else fake_parts d rerr ls (Some (l = [], []))))"

fun fake_Reader :: "Reader \<Rightarrow> string \<Rightarrow> part_stream" where
  "fake_Reader (Reader bs rerr) boundary =
     (if boundary = [] then NextErr (Error ''multipart: boundary is empty'')
      else fake_parts boundary rerr (split_lines_from [] bs) None)"

text \<open>The header lines of a message up to its empty line, and the lines after it.\<close>

fun fake_header_block :: "string list \<Rightarrow> Header \<Rightarrow> (Header \<times> string list) option" where
  "fake_header_block [] h = None"
| "fake_header_block (l # ls) h =
     (if l = [] then Some (h, ls)
      else
        (case split_header l of
           None \<Rightarrow> None
         | Some (k, v) \<Rightarrow>
             fake_header_block ls
               (h(k \<mapsto> (case h k of None \<Rightarrow> [] | Some vs \<Rightarrow> vs) @ [v]))))"

fun fake_ReadResponse :: "Reader \<Rightarrow> error + Response" where
  "fake_ReadResponse (Reader bs rerr) =
     (case split_lines_from [] bs of
        [] \<Rightarrow> Inl (Error ''unexpected EOF'')
      | status_line # ls \<Rightarrow>
          (case strip_prefix ''HTTP/1.1 '' status_line of
             None \<Rightarrow> Inl (Error ''malformed HTTP response'')
           | Some st \<Rightarrow>
               (case read_nat (take 3 st) of
                  None \<Rightarrow> Inl (Error ''malformed HTTP status code'')
                | Some code \<Rightarrow>
                    (case fake_header_block ls Map.empty of
                       None \<Rightarrow> Inl (Error ''unexpected EOF'')
                     | Some (h, rest) \<Rightarrow>
                         Inr \<lparr>StatusCode = int code, Status = st, resp_Header = h,
                              resp_Body = Reader (join_lines rest) rerr\<rparr>))))"

definition fake_Unmarshal :: "bytes \<Rightarrow> error + fcmResponse" where
  \<open>fake_Unmarshal b =
     (case strip_prefix ''{"name":"'' b of
        None \<Rightarrow> Inl (Error ''invalid character looking for beginning of value'')
      | Some rest \<Rightarrow>
          if dropWhile (\<lambda>c. c \<noteq> CHR 0x22) rest = ''"}'' then
            Inr \<lparr>Name = takeWhile (\<lambda>c. c \<noteq> CHR 0x22) rest\<rparr>
          else Inl (Error ''unexpected end of JSON input''))\<close>

definition fake_ParseMediaType :: "string \<Rightarrow> error + string \<times> (string \<rightharpoonup> string)" where
  "fake_ParseMediaType v =
     (if takeWhile (\<lambda>c. c \<noteq> CHR '';'') v = [] then Inl (Error ''mime: no media type'')
      else
        (case strip_prefix ''; boundary='' (dropWhile (\<lambda>c. c \<noteq> CHR '';'') v) of
           None \<Rightarrow> Inr (takeWhile (\<lambda>c. c \<noteq> CHR '';'') v, Map.empty)
         | Some b \<Rightarrow> Inr (takeWhile (\<lambda>c. c \<noteq> CHR '';'') v, [''boundary'' \<mapsto> b])))"

text \<open>Canonical header names: a capital letter first and after each hyphen, small letters elsewhere.\<close>

fun fake_canon_from :: "bool \<Rightarrow> string \<Rightarrow> string" where
  "fake_canon_from up [] = []"
| "fake_canon_from up (c # cs) =
     (case map_of
        (if up then zip ''abcdefghijklmnopqrstuvwxyz'' ''ABCDEFGHIJKLMNOPQRSTUVWXYZ''
         else zip ''ABCDEFGHIJKLMNOPQRSTUVWXYZ'' ''abcdefghijklmnopqrstuvwxyz'') c of
        None \<Rightarrow> c
      | Some c' \<Rightarrow> c') # fake_canon_from (c = CHR ''-'') cs"

text \<open>The header lines of the keys \<open>ks\<close>, in that order, one line per value.\<close>

definition header_pairs :: "string list \<Rightarrow> Header \<Rightarrow> (string \<times> string) list" where
  "header_pairs ks h =
     concat (map (\<lambda>k. case h k of None \<Rightarrow> [] | Some vs \<Rightarrow> map (\<lambda>v. (k, v)) vs) ks)"

text \<open>The host and the path of an \<open>http\<close> or \<open>https\<close> URL; the path of a URL without one is \<open>/\<close>.\<close>

definition fake_url_rest :: "string \<Rightarrow> string" where
  "fake_url_rest u =
     (case strip_prefix ''https://'' u of
        Some r \<Rightarrow> r
      | None \<Rightarrow> (case strip_prefix ''http://'' u of Some r \<Rightarrow> r | None \<Rightarrow> u))"

definition fake_url_host :: "string \<Rightarrow> string" where
  "fake_url_host u = takeWhile (\<lambda>c. c \<noteq> CHR ''/'') (fake_url_rest u)"

definition fake_url_path :: "string \<Rightarrow> string" where
  "fake_url_path u =
     (if dropWhile (\<lambda>c. c \<noteq> CHR ''/'') (fake_url_rest u) = [] then ''/''
      else dropWhile (\<lambda>c. c \<noteq> CHR ''/'') (fake_url_rest u))"

text \<open>
  Writing a request: the request line, \<open>Host\<close>, \<open>User-Agent\<close> (the default one when the
  header has none, none when the header has an empty one), \<open>Content-Length\<close>, and the
  headers that this package sets, sorted by their keys.
\<close>

definition fake_Write :: "Request \<Rightarrow> error + bytes" where
  "fake_Write r =
     Inr (http11_request (req_Method r) (fake_url_path (req_URL r)) (fake_url_host (req_URL r))
           ((case req_Header r ''User-Agent'' of
               None \<Rightarrow> [(''User-Agent'', ''Go-http-client/1.1'')]
             | Some [] \<Rightarrow> []
             | Some (ua # uas) \<Rightarrow> if ua = [] then [] else [(''User-Agent'', ua)]) @
            [(''Content-Length'', show_nat (length (req_Body r)))] @
            header_pairs [''Authorization'', ''Content-Type'', ''X-Goog-Api-Format-Version'']
              (req_Header r))
           (req_Body r))"

text \<open>
  What a closed \<open>multipart.Writer\<close> has written: each part after its delimiter line and
  its header lines, sorted by their keys, and the closing delimiter line.
\<close>

fun fake_Writer_parts :: "string \<Rightarrow> bool \<Rightarrow> (Header \<times> bytes) list \<Rightarrow> bytes" where
  "fake_Writer_parts boundary first [] = []"
| "fake_Writer_parts boundary first ((h, b) # ps) =
     (if first then [] else crlf) @ ''--'' @ boundary @ crlf @
     concat (map header_line
       (header_pairs
         [''Content-Id'', ''Content-Length'', ''Content-Transfer-Encoding'', ''Content-Type''] h)) @
     crlf @ b @ fake_Writer_parts boundary False ps"

definition fake_Writer_output :: "string \<Rightarrow> (Header \<times> bytes) list \<Rightarrow> bytes" where
  "fake_Writer_output boundary ps =
     fake_Writer_parts boundary True ps @ crlf @ ''--'' @ boundary @ ''--'' @ crlf"

definition fake_Marshal :: "Message fcmRequest \<Rightarrow> error + bytes" where
  \<open>fake_Marshal r =
     Inr (''{'' @ (if ValidateOnly r then ''"validate_only":true,'' else []) @
          ''"message":{"token":"'' @ Token (fr_Message r) @ ''"}}'')\<close>

definition fakeEnv :: "(Message, Message fcmRequest) Env" where
  "fakeEnv =
     \<lparr>Validate = (\<lambda>m. if Token m = [] \<and> Topic m = [] \<and> Condition m = []
                      then Some (Error ''one of token, topic or condition is required'')
                      else None),
      json_Marshal = fake_Marshal,
      json_Unmarshal = fake_Unmarshal,
      NewRequest_error = (\<lambda>m u. if CHR 0x0A \<in> set u
                                then Some (Error ''net/url: invalid control character in URL'')
                                else None),
      Request_Write = fake_Write,
      CanonicalMIMEHeaderKey = fake_canon_from True,
      ParseMediaType = fake_ParseMediaType,
      multipart_Reader = fake_Reader,
      ReadResponse = fake_ReadResponse,
      DumpRequest = (\<lambda>r. (req_Method r @ '' '' @ req_URL r, None)),
      DumpResponse = (\<lambda>r. (Status r, None)),
      Errorf_verbatim = (\<lambda>s. s),
      SetBoundary_ok = (\<lambda>b. 1 \<le> length b \<and> length b \<le> 70 \<and>
         list_all (\<lambda>c. c \<in> set ''ABCDEFGHIJKLMNOPQRSTUVWXYZabcdefghijklmnopqrstuvwxyz0123456789()+_,-./:=?'') b),
      Writer_random_boundary = ''3f0c9a1be2d47785'',
      Writer_output = fake_Writer_output\<rparr>"

definition fakeClient :: "error + string \<Rightarrow> (Request \<Rightarrow> error + Response) \<Rightarrow> Client" where
  "fakeClient tok do =
     \<lparr>projectID = ''p'', fcmEndpoint = ''https://fcm.googleapis.com/v1'',
      batchEndpoint = ''https://fcm.googleapis.com/batch'',
      sendEndpoint = ''https://fcm.googleapis.com/v1/projects/p/messages:send'',
      client_Do = do, tokenProvider_token = tok\<rparr>"

definition msg_to :: "string \<Rightarrow> Message" where
  "msg_to t =
     \<lparr>Token = t, Topic = [], Condition = [], Data = Map.empty, Notification = None,
      Android = None, Webpush = None, Apns = None\<rparr>"

definition multipart_response :: "int \<Rightarrow> string \<Rightarrow> string \<Rightarrow> bytes \<Rightarrow> Response" where
  "multipart_response code st ct b =
     \<lparr>StatusCode = code, Status = st, resp_Header = [''Content-Type'' \<mapsto> [ct]],
      resp_Body = Reader b None\<rparr>"

text \<open>
  Bodies of batch responses with the boundary \<open>batch_1\<close>. The lists hold their lines.
\<close>

definition two_parts_body :: bytes where
  \<open>two_parts_body =
     join_lines
       [''--batch_1'',
        ''Content-Type: application/http'',
        ''Content-ID: response-1'',
        [],
        ''HTTP/1.1 200 OK'',
        ''Content-Type: application/json; charset=UTF-8'',
        [],
        ''{"name":"projects/p/messages/123"}'',
        ''--batch_1'',
        ''Content-Type: application/http'',
        ''Content-ID: response-2'',
        [],
        ''HTTP/1.1 404 Not Found'',
        ''Content-Type: text/plain; charset=UTF-8'',
        [],
        ''not found'',
        ''--batch_1--'',
        []]\<close>

definition one_part_body :: bytes where
  \<open>one_part_body =
     join_lines
       [''--batch_1'',
        ''Content-Type: application/http'',
        ''Content-ID: response-1'',
        [],
        ''HTTP/1.1 200 OK'',
        ''Content-Type: application/json; charset=UTF-8'',
        [],
        ''{"name":"projects/p/messages/123"}'',
        ''--batch_1--'',
        []]\<close>

definition bad_json_body :: bytes where
  \<open>bad_json_body =
     join_lines
       [''--batch_1'',
        ''Content-Type: application/http'',
        ''Content-ID: response-1'',
        [],
        ''HTTP/1.1 200 OK'',
        ''Content-Type: application/json; charset=UTF-8'',
        [],
        ''{"name":"projects/p/messages/123"}'',
        ''--batch_1'',
        ''Content-Type: application/http'',
        ''Content-ID: response-2'',
        [],
        ''HTTP/1.1 200 OK'',
        [],
        ''<html>'',
        ''--batch_1--'',
        []]\<close>

definition bad_http_body :: bytes where
  \<open>bad_http_body =
     join_lines
       [''--batch_1'',
        ''Content-Type: application/http'',
        ''Content-ID: response-1'',
        [],
        ''HTTP/1.1 200 OK'',
        ''Content-Type: application/json; charset=UTF-8'',
        [],
        ''{"name":"projects/p/messages/123"}'',
        ''--batch_1'',
        ''Content-Type: application/http'',
        ''Content-ID: response-2'',
        [],
        ''garbage'',
        ''--batch_1--'',
        []]\<close>

text \<open>The part that \<open>newBatchRequest\<close> builds for a message to a token.\<close>

definition part_for :: "string \<Rightarrow> Message fcmRequest part" where
  "part_for t =
     \<lparr>part_method = ''POST'',
      part_url = ''https://fcm.googleapis.com/v1/projects/p/messages:send'',
      part_headers = [(''X-GOOG-API-FORMAT-VERSION'', ''2'')],
      part_body = \<lparr>ValidateOnly = False, fr_Message = msg_to t\<rparr>\<rparr>"

text \<open>The JSON text of the test double for a message to a token.\<close>

definition fake_message_json :: "string \<Rightarrow> bytes" where
  \<open>fake_message_json t = ''{"message":{"token":"'' @ t @ ''"}}''\<close>

text \<open>The encoded part of a message to the token \<open>a\<close>, line by line.\<close>

definition request_a_bytes :: bytes where
  \<open>request_a_bytes =
     join_lines
       [''POST /v1/projects/p/messages:send HTTP/1.1'',
        ''Host: fcm.googleapis.com'',
        ''Content-Length: 25'',
        ''Content-Type: application/json; charset=UTF-8'',
        ''X-Goog-Api-Format-Version: 2'',
        [],
        ''{"message":{"token":"a"}}'']\<close>

section \<open>Properties\<close>

subsection \<open>The request side: sizes, validation, token\<close>

lemma show_nat_500: "show_nat 500 = ''500''"
  by (simp add: show_nat.simps)

lemma parts_first_invalid:
  "k < length ms \<Longrightarrow> Validate L (ms ! k) = Some err \<Longrightarrow>
   (\<forall>i<k. Validate L (ms ! i) = None) \<Longrightarrow>
   newBatchRequest_parts L c dryRun idx ms parts =
     Inl (Error (''invalid message at index '' @ show_nat (idx + k) @ '': '' @ Error_msg err))"
proof (induction ms arbitrary: k idx parts)
  case Nil
  then show ?case by simp
next
  case (Cons m ms)
  show ?case
  proof (cases k)
    case 0
    with Cons.prems show ?thesis by simp
  next
    case (Suc j)
    from Cons.prems Suc have head: "Validate L m = None" by auto
    from Cons.prems Suc have j: "j < length ms" "Validate L (ms ! j) = Some err" by auto
    from Cons.prems Suc have before: "\<forall>i<j. Validate L (ms ! i) = None" by auto
    from Cons.IH [OF j before] head Suc show ?thesis by simp
  qed
qed

lemma newBatchRequest_no_transport:
  "transport_calls (fst (newBatchRequest L c messages dryRun)) = []"
  by (simp add: newBatchRequest_def split: sum.splits)

lemma transport_calls_append:
  "transport_calls (xs @ ys) = transport_calls xs @ transport_calls ys"
  by (induction xs rule: transport_calls.induct) simp_all

text \<open>
  Claim C6. \<open>sendBatch\<close> rejects the empty list and every list of more than 500
  messages with an error, before anything else happens: nothing is validated, no
  request is built, no token is asked for, nothing reaches the transport (the trace is
  empty). A list of 1 to 500 messages passes the size check: the call continues with
  \<open>newBatchRequest\<close>, whose error it returns, and a request that \<open>newBatchRequest\<close>
  returns is handed to the transport.
\<close>

theorem size_precondition:
  "(length messages = 0 \<longrightarrow>
      sendBatch L c messages dryRun = ([], Inl (Error ''messages must not be nil or empty'')))
   \<and> (length messages > 500 \<longrightarrow>
      sendBatch L c messages dryRun =
        ([], Inl (Error ''messages must not contain more than 500 elements'')))
   \<and> (1 \<le> length messages \<and> length messages \<le> 500 \<longrightarrow>
        (\<forall>tr err. newBatchRequest L c messages dryRun = (tr, Inl err) \<longrightarrow>
           sendBatch L c messages dryRun = (tr, Inl err)) \<and>
        (\<forall>tr request. newBatchRequest L c messages dryRun = (tr, Inr request) \<longrightarrow>
           transport_calls (fst (sendBatch L c messages dryRun)) = [request]))"
proof (intro conjI impI allI)
  assume "length messages = 0"
  then show "sendBatch L c messages dryRun = ([], Inl (Error ''messages must not be nil or empty''))"
    by (simp add: sendBatch_def)
next
  assume "500 < length messages"
  then show "sendBatch L c messages dryRun =
        ([], Inl (Error ''messages must not contain more than 500 elements''))"
    by (auto simp: sendBatch_def maxMessages_def show_nat_500)
next
  fix tr err
  assume "1 \<le> length messages \<and> length messages \<le> 500"
    and "newBatchRequest L c messages dryRun = (tr, Inl err)"
  then show "sendBatch L c messages dryRun = (tr, Inl err)"
    by (auto simp: sendBatch_def maxMessages_def)
next
  fix tr request
  assume size: "1 \<le> length messages \<and> length messages \<le> 500"
    and req: "newBatchRequest L c messages dryRun = (tr, Inr request)"
  from req have "transport_calls tr = []"
    using newBatchRequest_no_transport [of L c messages dryRun] by simp
  with size req show "transport_calls (fst (sendBatch L c messages dryRun)) = [request]"
    by (auto simp: sendBatch_def maxMessages_def transport_calls_append split: sum.splits)
qed


theorem size_precondition_witness:
  "length ([] :: Message list) = 0
   \<and> sendBatch fakeEnv (fakeClient (Inr ''tok'') (\<lambda>r. Inl (Error ''connection refused''))) [] False
       = ([], Inl (Error ''messages must not be nil or empty''))
   \<and> 500 < length (replicate 501 (msg_to ''a''))
   \<and> sendBatch fakeEnv (fakeClient (Inr ''tok'') (\<lambda>r. Inl (Error ''connection refused'')))
         (replicate 501 (msg_to ''a'')) False
       = ([], Inl (Error ''messages must not contain more than 500 elements''))
   \<and> 1 \<le> length [msg_to ''a''] \<and> length [msg_to ''a''] \<le> 500
   \<and> (\<exists>tr request.
         newBatchRequest fakeEnv (fakeClient (Inr ''tok'') (\<lambda>r. Inl (Error ''connection refused'')))
           [msg_to ''a''] False = (tr, Inr request)
         \<and> transport_calls (fst (sendBatch fakeEnv
              (fakeClient (Inr ''tok'') (\<lambda>r. Inl (Error ''connection refused''))) [msg_to ''a''] False))
            = [request])"
proof -
  let ?c = "fakeClient (Inr ''tok'') (\<lambda>r. Inl (Error ''connection refused''))"
  have built: "\<exists>tr request. newBatchRequest fakeEnv ?c [msg_to ''a''] False = (tr, Inr request)"
    by (simp add: newBatchRequest_def fakeEnv_def fakeClient_def msg_to_def multipartEntity_Bytes_def
        multipartEntity_Writer_def part_writeTo_def part_bytes_def part_request_def
        http_NewRequest_def fake_Marshal_def fake_Write_def)
  then obtain tr request where
    req: "newBatchRequest fakeEnv ?c [msg_to ''a''] False = (tr, Inr request)" by blast
  have "transport_calls (fst (sendBatch fakeEnv ?c [msg_to ''a''] False)) = [request]"
    using size_precondition [of "[msg_to ''a'']" fakeEnv ?c False] req by simp
  with req show ?thesis
    using size_precondition [of "[]" fakeEnv ?c False]
      size_precondition [of "replicate 501 (msg_to ''a'')" fakeEnv ?c False]
    by simp
qed

text \<open>
  Claim C5. When exactly one message of the batch, at index \<open>k\<close>, fails \<open>Validate\<close>,
  \<open>newBatchRequest\<close> returns the error "invalid message at index k: ..." and no request;
  no envelope has been assembled and the outer request has not been constructed (the
  trace is empty). \<open>sendBatch\<close> then fails as well, and nothing reaches the transport;
  for a batch of at most 500 messages its error is the one that names \<open>k\<close>.
\<close>

theorem invalid_message_aborts:
  assumes "k < length messages"
    and "Validate L (messages ! k) = Some err"
    and "\<forall>i<length messages. i \<noteq> k \<longrightarrow> Validate L (messages ! i) = None"
  shows "newBatchRequest L c messages dryRun =
           ([], Inl (Error (''invalid message at index '' @ show_nat k @ '': '' @ Error_msg err)))
         \<and> fst (sendBatch L c messages dryRun) = []
         \<and> transport_calls (fst (sendBatch L c messages dryRun)) = []
         \<and> (\<exists>e. snd (sendBatch L c messages dryRun) = Inl e)
         \<and> (length messages \<le> 500 \<longrightarrow>
              sendBatch L c messages dryRun =
                ([], Inl (Error (''invalid message at index '' @ show_nat k @ '': '' @ Error_msg err))))"
proof -
  from assms have before: "\<forall>i<k. Validate L (messages ! i) = None" by auto
  have parts: "newBatchRequest_parts L c dryRun 0 messages [] =
      Inl (Error (''invalid message at index '' @ show_nat k @ '': '' @ Error_msg err))"
    using parts_first_invalid [OF assms(1) assms(2) before, of c dryRun 0 "[]"] by simp
  then have req: "newBatchRequest L c messages dryRun =
      ([], Inl (Error (''invalid message at index '' @ show_nat k @ '': '' @ Error_msg err)))"
    by (simp add: newBatchRequest_def)
  from assms(1) have nonempty: "length messages \<noteq> 0" by auto
  from req nonempty have tr: "fst (sendBatch L c messages dryRun) = []"
    by (simp add: sendBatch_def)
  from req nonempty have fails: "\<exists>e. snd (sendBatch L c messages dryRun) = Inl e"
    by (simp add: sendBatch_def)
  from req nonempty have small: "length messages \<le> 500 \<longrightarrow>
      sendBatch L c messages dryRun =
        ([], Inl (Error (''invalid message at index '' @ show_nat k @ '': '' @ Error_msg err)))"
    by (simp add: sendBatch_def maxMessages_def)
  from req tr fails small show ?thesis by simp
qed

theorem invalid_message_aborts_witness:
  "(1::nat) < length [msg_to ''a'', msg_to [], msg_to ''c'']
   \<and> Validate fakeEnv ([msg_to ''a'', msg_to [], msg_to ''c''] ! 1)
       = Some (Error ''one of token, topic or condition is required'')
   \<and> Validate fakeEnv ([msg_to ''a'', msg_to [], msg_to ''c''] ! 0) = None
   \<and> Validate fakeEnv ([msg_to ''a'', msg_to [], msg_to ''c''] ! 2) = None
   \<and> sendBatch fakeEnv (fakeClient (Inr ''tok'') (\<lambda>r. Inl (Error ''connection refused'')))
        [msg_to ''a'', msg_to [], msg_to ''c''] False
       = ([], Inl (Error ''invalid message at index 1: one of token, topic or condition is required''))"
proof -
  let ?ms = "[msg_to ''a'', msg_to [], msg_to ''c'']"
  have k: "(1::nat) < length ?ms" by simp
  have bad: "Validate fakeEnv (?ms ! 1) = Some (Error ''one of token, topic or condition is required'')"
    by (simp add: fakeEnv_def msg_to_def)
  have others: "\<forall>i<length ?ms. i \<noteq> 1 \<longrightarrow> Validate fakeEnv (?ms ! i) = None"
    by (simp add: fakeEnv_def msg_to_def less_Suc_eq nth_Cons')
  show ?thesis
    using invalid_message_aborts [OF k bad others,
        of "fakeClient (Inr ''tok'') (\<lambda>r. Inl (Error ''connection refused''))" False]
    by (simp add: fakeEnv_def msg_to_def show_nat.simps)
qed


subsection \<open>Multicast messages\<close>

lemma toMessages_loop_Some:
  "toMessages_loop (Some msg) tokens messages =
     Ok (messages @
       map (\<lambda>token. \<lparr>Token = token, Topic = [], Condition = [], Data = Data msg,
                Notification = Notification msg, Android = Android msg,
                Webpush = Webpush msg, Apns = Apns msg\<rparr>) tokens)"
  by (induction tokens arbitrary: messages) simp_all

text \<open>
  Claim C10. For a multicast message with a non-nil \<open>Message\<close> and 1 to 500 tokens,
  \<open>toMessages\<close> returns one message per token, in token order; message \<open>i\<close> has
  \<open>Tokens[i]\<close> as its \<open>Token\<close> and the \<open>Data\<close>, \<open>Notification\<close>, \<open>Android\<close>,
  \<open>Webpush\<close> and \<open>Apns\<close> of the shared message. A nil multicast message, an empty
  token list and a list of more than 500 tokens give an error.
\<close>

theorem toMessages_correct:
  "(\<forall>mm msg. mm_Message mm = Some msg \<and> 1 \<le> length (Tokens mm) \<and> length (Tokens mm) \<le> 500 \<longrightarrow>
      (\<exists>ms. toMessages (Some mm) = Ok ms \<and> length ms = length (Tokens mm) \<and>
         (\<forall>i < length ms.
            Token (ms ! i) = Tokens mm ! i \<and> Data (ms ! i) = Data msg \<and>
            Notification (ms ! i) = Notification msg \<and> Android (ms ! i) = Android msg \<and>
            Webpush (ms ! i) = Webpush msg \<and> Apns (ms ! i) = Apns msg)))
   \<and> toMessages None = Err (Error ''message must not be nil'')
   \<and> (\<forall>mm. length (Tokens mm) = 0 \<longrightarrow>
        toMessages (Some mm) = Err (Error ''tokens must not be nil or empty''))
   \<and> (\<forall>mm. length (Tokens mm) > 500 \<longrightarrow>
        toMessages (Some mm) = Err (Error ''tokens must not contain more than 500 elements''))"
  by (simp add: toMessages_def MulticastMessage_toMessages_def toMessages_loop_Some
      show_nat_500 maxMessages_def)

theorem toMessages_correct_witness:
  "mm_Message \<lparr>Tokens = [''t1'', ''t2''], mm_Message = Some \<lparr>Token = [], Topic = ''news'', Condition = [],
        Data = Map.empty, Notification = Some \<lparr>Title = ''hi'', Body = ''there''\<rparr>,
        Android = None, Webpush = None, Apns = None\<rparr>\<rparr> \<noteq> None
   \<and> 1 \<le> length [''t1'', ''t2''] \<and> length [''t1'', ''t2''] \<le> (500::nat)
   \<and> (\<exists>ms. toMessages (Some \<lparr>Tokens = [''t1'', ''t2''], mm_Message = Some \<lparr>Token = [], Topic = ''news'', Condition = [],
        Data = Map.empty, Notification = Some \<lparr>Title = ''hi'', Body = ''there''\<rparr>,
        Android = None, Webpush = None, Apns = None\<rparr>\<rparr>) = Ok ms \<and> length ms = 2
        \<and> Token (ms ! 0) = ''t1'' \<and> Token (ms ! 1) = ''t2''
        \<and> Notification (ms ! 1) = Some \<lparr>Title = ''hi'', Body = ''there''\<rparr>)
   \<and> toMessages (Some \<lparr>Tokens = [], mm_Message = None\<rparr>) = Err (Error ''tokens must not be nil or empty'')
   \<and> toMessages (Some \<lparr>Tokens = replicate 501 ''t'', mm_Message = None\<rparr>)
        = Err (Error ''tokens must not contain more than 500 elements'')"
  using toMessages_correct
  by (simp add: toMessages_def MulticastMessage_toMessages_def maxMessages_def show_nat_500)



subsection \<open>Token acquisition\<close>





subsection \<open>The response side: decoding the parts\<close>

lemma well_formed_part_iff:
  "well_formed_part L part \<longleftrightarrow> (\<exists>sr. newSendResponse L part = Inr sr)"
  by (simp add: well_formed_part_def newSendResponse_def split: sum.splits)

lemma loop_Inr:
  "newBatchResponse_loop L mr responses successCount = Inr (responses', successCount') \<Longrightarrow>
   stream_end mr = None \<and>
   (\<exists>new. responses' = responses @ new \<and>
      map Inr new = map (newSendResponse L) (stream_parts mr) \<and>
      successCount' = successCount + int (length (filter Success new)))"
proof (induction mr arbitrary: responses successCount)
  case EOF
  then show ?case by simp
next
  case (NextErr err)
  then show ?case by simp
next
  case (NextPart part mr)
  from NextPart.prems obtain sr where sr: "newSendResponse L part = Inr sr"
    by (auto split: sum.splits)
  with NextPart.prems have rest:
    "newBatchResponse_loop L mr (responses @ [sr])
       (if Success sr then successCount + 1 else successCount) = Inr (responses', successCount')"
    by simp
  from NextPart.IH [OF rest] obtain new where
    e: "stream_end mr = None" and
    r: "responses' = (responses @ [sr]) @ new" and
    m: "map Inr new = map (newSendResponse L) (stream_parts mr)" and
    n: "successCount' = (if Success sr then successCount + 1 else successCount)
          + int (length (filter Success new))"
    by blast
  have "responses' = responses @ (sr # new)" using r by simp
  moreover have "map Inr (sr # new) = map (newSendResponse L) (stream_parts (NextPart part mr))"
    using m sr by simp
  moreover have "successCount' = successCount + int (length (filter Success (sr # new)))"
    using n by simp
  ultimately show ?case using e by (intro conjI exI [of _ "sr # new"]) simp_all
qed


lemma loop_fails:
  "stream_end mr \<noteq> None \<or> (\<exists>part \<in> set (stream_parts mr). \<not> well_formed_part L part) \<Longrightarrow>
   \<exists>err. newBatchResponse_loop L mr responses successCount = Inl err"
proof (induction mr arbitrary: responses successCount)
  case EOF
  then show ?case by simp
next
  case (NextErr err)
  then show ?case by simp
next
  case (NextPart part mr)
  show ?case
  proof (cases "newSendResponse L part")
    case (Inl err)
    then show ?thesis by simp
  next
    case (Inr sr)
    then have "well_formed_part L part" by (auto simp: well_formed_part_iff)
    with NextPart.prems have
      "stream_end mr \<noteq> None \<or> (\<exists>part \<in> set (stream_parts mr). \<not> well_formed_part L part)"
      by auto
    from NextPart.IH [OF this] Inr show ?thesis by simp
  qed
qed

lemma filter_not_Success:
  "int (length rs) - int (length (filter Success rs)) = int (length (filter (\<lambda>sr. \<not> Success sr) rs))"
  using sum_length_filter_compl [of Success rs] by simp

lemma newBatchResponse_Inr:
  assumes "newBatchResponse L resp = Inr r"
  shows "\<exists>mediatype params.
           ParseMediaType L (Header_Get L (resp_Header resp) ''Content-Type'') = Inr (mediatype, params) \<and>
           stream_end (multipart_Reader L (resp_Body resp) (boundary_param params)) = None \<and>
           map Inr (Responses r) =
             map (newSendResponse L) (stream_parts (multipart_Reader L (resp_Body resp) (boundary_param params))) \<and>
           SuccessCount r = int (length (filter Success (Responses r))) \<and>
           FailureCount r = int (length (Responses r)) - SuccessCount r"
proof -
  from assms obtain mediatype params where
    pm: "ParseMediaType L (Header_Get L (resp_Header resp) ''Content-Type'') = Inr (mediatype, params)"
    by (auto simp: newBatchResponse_def split: sum.splits)
  let ?mr = "multipart_Reader L (resp_Body resp) (boundary_param params)"
  from assms pm obtain responses successCount where
    loop: "newBatchResponse_loop L ?mr [] 0 = Inr (responses, successCount)" and
    r: "r = \<lparr>SuccessCount = successCount,
             FailureCount = int (length responses) - successCount, Responses = responses\<rparr>"
    by (auto simp: newBatchResponse_def split: sum.splits)
  from loop_Inr [OF loop] r pm show ?thesis by auto
qed

text \<open>
  Claim C1, as the code has it. Whenever \<open>sendBatch\<close> returns a result, the success count
  and the failure count add up to the number of outcomes, the success count is the
  number of successful outcomes and the failure count the number of failed ones; one
  request reached the transport, and the outcomes are the decoded parts of its response,
  one per part and in the order of the parts. The code does not compare the number of
  parts with the number of messages.
\<close>

theorem batch_result_counts:
  assumes "sendBatch L c messages dryRun = (tr, Inr r)"
  shows "SuccessCount r + FailureCount r = int (length (Responses r))
         \<and> SuccessCount r = int (length (filter Success (Responses r)))
         \<and> FailureCount r = int (length (filter (\<lambda>sr. \<not> Success sr) (Responses r)))
         \<and> (\<exists>request resp mediatype params.
               transport_calls tr = [request] \<and> client_Do c request = Inr resp \<and>
               ParseMediaType L (Header_Get L (resp_Header resp) ''Content-Type'')
                 = Inr (mediatype, params) \<and>
               map Inr (Responses r) =
                 map (newSendResponse L)
                   (stream_parts (multipart_Reader L (resp_Body resp) (boundary_param params))))"
proof -
  from assms obtain tr0 request where
    nbr: "newBatchRequest L c messages dryRun = (tr0, Inr request)"
    by (auto simp: sendBatch_def split: if_splits sum.splits prod.splits)
  from assms nbr obtain resp where
    do: "client_Do c request = Inr resp" and
    tr: "tr = tr0 @ [EvDo request]" and
    dec: "newBatchResponse L resp = Inr r"
    by (auto simp: sendBatch_def split: if_splits sum.splits)
  have "transport_calls tr0 = []"
    using newBatchRequest_no_transport [of L c messages dryRun] nbr by simp
  with tr have calls: "transport_calls tr = [request]"
    by (simp add: transport_calls_append)
  from newBatchResponse_Inr [OF dec] obtain mediatype params where
    pm: "ParseMediaType L (Header_Get L (resp_Header resp) ''Content-Type'') = Inr (mediatype, params)" and
    parts: "map Inr (Responses r) =
       map (newSendResponse L) (stream_parts (multipart_Reader L (resp_Body resp) (boundary_param params)))" and
    sc: "SuccessCount r = int (length (filter Success (Responses r)))" and
    fc: "FailureCount r = int (length (Responses r)) - SuccessCount r"
    by blast
  from sc fc have "SuccessCount r + FailureCount r = int (length (Responses r))" by simp
  moreover from sc fc have
    "FailureCount r = int (length (filter (\<lambda>sr. \<not> Success sr) (Responses r)))"
    by (simp add: filter_not_Success)
  ultimately show ?thesis using sc calls do pm parts by blast
qed

lemma sendBatch_two_parts:
  "snd (sendBatch fakeEnv
     (fakeClient (Inr ''tok'')
       (\<lambda>r. Inr (multipart_response 200 ''200 OK'' ''multipart/mixed; boundary=batch_1'' two_parts_body)))
     [msg_to ''a'', msg_to ''b''] False)
   = Inr \<lparr>SuccessCount = 1, FailureCount = 1,
          Responses =
            [\<lparr>Success = True, MessageID = ''projects/p/messages/123'', ErrorCode = 0, ErrorBody = []\<rparr>,
             \<lparr>Success = False, MessageID = [], ErrorCode = 404, ErrorBody = ''not found''\<rparr>]\<rparr>"
  by code_simp

theorem batch_result_counts_witness:
  "\<exists>tr r. sendBatch fakeEnv
     (fakeClient (Inr ''tok'')
       (\<lambda>r. Inr (multipart_response 200 ''200 OK'' ''multipart/mixed; boundary=batch_1'' two_parts_body)))
     [msg_to ''a'', msg_to ''b''] False = (tr, Inr r)
   \<and> SuccessCount r = 1 \<and> FailureCount r = 1 \<and> length (Responses r) = 2
   \<and> SuccessCount r + FailureCount r = int (length (Responses r))
   \<and> length (transport_calls tr) = 1"
proof -
  let ?call = "sendBatch fakeEnv
     (fakeClient (Inr ''tok'')
       (\<lambda>r. Inr (multipart_response 200 ''200 OK'' ''multipart/mixed; boundary=batch_1'' two_parts_body)))
     [msg_to ''a'', msg_to ''b''] False"
  obtain tr res where call: "?call = (tr, res)" by (cases ?call)
  with sendBatch_two_parts obtain r where
    r: "?call = (tr, Inr r)" and
    v: "SuccessCount r = 1" "FailureCount r = 1" "length (Responses r) = 2"
    by auto
  from batch_result_counts [OF r] v r show ?thesis by auto
qed

text \<open>
  Claim C1 as stated fails: a batch of two messages whose response has one part gives a
  result with one outcome.
\<close>

theorem outcomes_not_per_message_counterexample:
  "snd (sendBatch fakeEnv
     (fakeClient (Inr ''tok'')
       (\<lambda>r. Inr (multipart_response 200 ''200 OK'' ''multipart/mixed; boundary=batch_1'' one_part_body)))
     [msg_to ''a'', msg_to ''b''] False)
   = Inr \<lparr>SuccessCount = 1, FailureCount = 0,
          Responses =
            [\<lparr>Success = True, MessageID = ''projects/p/messages/123'', ErrorCode = 0, ErrorBody = []\<rparr>]\<rparr>
   \<and> length [msg_to ''a'', msg_to ''b''] = 2"
  by code_simp

subsection \<open>The outer status\<close>






subsection \<open>Decoding is all or nothing\<close>

text \<open>
  Claim C3. \<open>newBatchResponse\<close> returns a result or an error, never part of a result.
  A \<open>Content-Type\<close> that \<open>mime.ParseMediaType\<close> refuses gives the error "error parsing
  content-type header: ...". A \<open>Content-Type\<close> without a boundary parameter (or with
  an empty one) makes the code read with the empty boundary, which the multipart reader
  refuses, so the call fails and does not return an empty result. An error of the reader, a part that is
  not an HTTP response, a part whose body cannot be read and a part with status 200 whose
  body is not JSON each end the whole decoding with an error.
\<close>

theorem decode_all_or_nothing:
  "(\<forall>err. ParseMediaType L (Header_Get L (resp_Header resp) ''Content-Type'') = Inl err \<longrightarrow>
      newBatchResponse L resp
        = Inl (Error (''error parsing content-type header: '' @ Error_msg err)))
   \<and> (\<forall>mediatype params.
        rejects_empty_boundary L \<and>
        ParseMediaType L (Header_Get L (resp_Header resp) ''Content-Type'') = Inr (mediatype, params) \<and>
        boundary_param params = [] \<longrightarrow>
        (\<exists>err. newBatchResponse L resp = Inl err))
   \<and> (\<forall>mediatype params.
        ParseMediaType L (Header_Get L (resp_Header resp) ''Content-Type'') = Inr (mediatype, params) \<and>
        (stream_end (multipart_Reader L (resp_Body resp) (boundary_param params)) \<noteq> None \<or>
         (\<exists>part \<in> set (stream_parts (multipart_Reader L (resp_Body resp) (boundary_param params))).
            \<not> well_formed_part L part)) \<longrightarrow>
        (\<exists>err. newBatchResponse L resp = Inl err))
   \<and> (\<forall>part err. ReadResponse L part = Inl err \<longrightarrow>
        \<not> well_formed_part L part \<and>
        newSendResponse L part = Inl (Error (''error parsing multipart body: '' @ Error_msg err)))
   \<and> (\<forall>part hr err. ReadResponse L part = Inr hr \<and> ReadAll (resp_Body hr) = Inl err \<longrightarrow>
        \<not> well_formed_part L part \<and> newSendResponse L part = Inl err)
   \<and> (\<forall>part hr b err. ReadResponse L part = Inr hr \<and> ReadAll (resp_Body hr) = Inr b \<and>
        StatusCode hr = 200 \<and> json_Unmarshal L b = Inl err \<longrightarrow>
        \<not> well_formed_part L part \<and> newSendResponse L part = Inl err)"
proof (intro conjI impI allI)
  fix err
  assume "ParseMediaType L (Header_Get L (resp_Header resp) ''Content-Type'') = Inl err"
  then show "newBatchResponse L resp
      = Inl (Error (''error parsing content-type header: '' @ Error_msg err))"
    by (simp add: newBatchResponse_def)
next
  fix mediatype params
  assume h: "rejects_empty_boundary L \<and>
     ParseMediaType L (Header_Get L (resp_Header resp) ''Content-Type'') = Inr (mediatype, params) \<and>
     boundary_param params = []"
  then obtain err where "multipart_Reader L (resp_Body resp) [] = NextErr err"
    unfolding rejects_empty_boundary_def by blast
  with h show "\<exists>err. newBatchResponse L resp = Inl err"
    by (simp add: newBatchResponse_def)
next
  fix mediatype params
  let ?mr = "multipart_Reader L (resp_Body resp) (boundary_param params)"
  assume h: "ParseMediaType L (Header_Get L (resp_Header resp) ''Content-Type'') = Inr (mediatype, params) \<and>
     (stream_end ?mr \<noteq> None \<or> (\<exists>part \<in> set (stream_parts ?mr). \<not> well_formed_part L part))"
  then obtain err where "newBatchResponse_loop L ?mr [] 0 = Inl err"
    using loop_fails [of ?mr L "[]" 0] by blast
  with h show "\<exists>err. newBatchResponse L resp = Inl err"
    by (simp add: newBatchResponse_def)
next
  fix part err
  assume "ReadResponse L part = Inl err"
  then show "\<not> well_formed_part L part"
    by (simp add: well_formed_part_def)
next
  fix part err
  assume "ReadResponse L part = Inl err"
  then show "newSendResponse L part = Inl (Error (''error parsing multipart body: '' @ Error_msg err))"
    by (simp add: newSendResponse_def)
next
  fix part hr err
  assume "ReadResponse L part = Inr hr \<and> ReadAll (resp_Body hr) = Inl err"
  then show "\<not> well_formed_part L part"
    by (simp add: well_formed_part_def)
next
  fix part hr err
  assume "ReadResponse L part = Inr hr \<and> ReadAll (resp_Body hr) = Inl err"
  then show "newSendResponse L part = Inl err"
    by (simp add: newSendResponse_def)
next
  fix part hr b err
  assume "ReadResponse L part = Inr hr \<and> ReadAll (resp_Body hr) = Inr b \<and>
        StatusCode hr = 200 \<and> json_Unmarshal L b = Inl err"
  then show "\<not> well_formed_part L part"
    by (simp add: well_formed_part_def)
next
  fix part hr b err
  assume "ReadResponse L part = Inr hr \<and> ReadAll (resp_Body hr) = Inr b \<and>
        StatusCode hr = 200 \<and> json_Unmarshal L b = Inl err"
  then show "newSendResponse L part = Inl err"
    by (simp add: newSendResponse_def)
qed

lemma fakeEnv_rejects_empty_boundary: "rejects_empty_boundary fakeEnv"
proof -
  have "\<exists>err. fake_Reader body [] = NextErr err" for body
    by (cases body) simp
  then show ?thesis by (simp add: rejects_empty_boundary_def fakeEnv_def)
qed

theorem decode_all_or_nothing_witness:
  "rejects_empty_boundary fakeEnv
   \<and> ParseMediaType fakeEnv [] = Inl (Error ''mime: no media type'')
   \<and> newBatchResponse fakeEnv (multipart_response 200 ''200 OK'' [] two_parts_body)
       = Inl (Error ''error parsing content-type header: mime: no media type'')
   \<and> ParseMediaType fakeEnv ''multipart/mixed'' = Inr (''multipart/mixed'', Map.empty)
   \<and> (\<exists>err. newBatchResponse fakeEnv (multipart_response 200 ''200 OK'' ''multipart/mixed'' two_parts_body)
        = Inl err)
   \<and> \<not> well_formed_part fakeEnv (Reader (join_lines [''HTTP/1.1 200 OK'', [], ''<html>'']) None)
   \<and> (\<exists>err. newBatchResponse fakeEnv
          (multipart_response 200 ''200 OK'' ''multipart/mixed; boundary=batch_1'' bad_json_body) = Inl err)
   \<and> \<not> well_formed_part fakeEnv (Reader ''garbage'' None)
   \<and> (\<exists>err. newBatchResponse fakeEnv
          (multipart_response 200 ''200 OK'' ''multipart/mixed; boundary=batch_1'' bad_http_body) = Inl err)"
proof -
  let ?none = "multipart_response 200 ''200 OK'' [] two_parts_body"
  let ?nob = "multipart_response 200 ''200 OK'' ''multipart/mixed'' two_parts_body"
  let ?json = "multipart_response 200 ''200 OK'' ''multipart/mixed; boundary=batch_1'' bad_json_body"
  let ?http = "multipart_response 200 ''200 OK'' ''multipart/mixed; boundary=batch_1'' bad_http_body"
  have get: "Header_Get fakeEnv (resp_Header (multipart_response code st ct b)) ''Content-Type'' = ct"
    for code st ct b
    by (simp add: Header_Get_def multipart_response_def fakeEnv_def)
  have p0: "ParseMediaType fakeEnv [] = Inl (Error ''mime: no media type'')"
    by (simp add: fakeEnv_def fake_ParseMediaType_def)
  have p1: "ParseMediaType fakeEnv ''multipart/mixed'' = Inr (''multipart/mixed'', Map.empty)"
    by (simp add: fakeEnv_def fake_ParseMediaType_def)
  have p2: "ParseMediaType fakeEnv ''multipart/mixed; boundary=batch_1''
      = Inr (''multipart/mixed'', [''boundary'' \<mapsto> ''batch_1''])"
    by (simp add: fakeEnv_def fake_ParseMediaType_def)
  have bp: "boundary_param [''boundary'' \<mapsto> ''batch_1''] = ''batch_1''"
    by (simp add: boundary_param_def)
  have j1: "\<not> well_formed_part fakeEnv (Reader (join_lines [''HTTP/1.1 200 OK'', [], ''<html>'']) None)"
    by code_simp
  have j2: "Reader (join_lines [''HTTP/1.1 200 OK'', [], ''<html>'']) None
      \<in> set (stream_parts (multipart_Reader fakeEnv (resp_Body ?json) ''batch_1''))"
    by code_simp
  have h1: "\<not> well_formed_part fakeEnv (Reader ''garbage'' None)"
    by code_simp
  have h2: "Reader ''garbage'' None
      \<in> set (stream_parts (multipart_Reader fakeEnv (resp_Body ?http) ''batch_1''))"
    by code_simp
  note inst = decode_all_or_nothing [of fakeEnv]
  have a: "newBatchResponse fakeEnv ?none
       = Inl (Error ''error parsing content-type header: mime: no media type'')"
    using inst [of ?none] p0 by (simp add: get)
  have b: "\<exists>err. newBatchResponse fakeEnv ?nob = Inl err"
    using inst [of ?nob] p1 fakeEnv_rejects_empty_boundary by (simp add: get boundary_param_def)
  have c: "\<exists>err. newBatchResponse fakeEnv ?json = Inl err"
    using inst [of ?json] p2 j1 j2 bp by (simp add: get) blast
  have d: "\<exists>err. newBatchResponse fakeEnv ?http = Inl err"
    using inst [of ?http] p2 h1 h2 bp by (simp add: get) blast
  from fakeEnv_rejects_empty_boundary p0 p1 a b c d j1 h1 show ?thesis by blast
qed

subsection \<open>The outcome of one part\<close>

text \<open>
  Claim C4. A batch response with the two parts \<open>200 {"name":"projects/p/messages/123"}\<close>
  and \<open>404 not found\<close> decodes to success count 1, failure count 1, and two outcomes in
  the order of the parts: the failure has the status \<open>404\<close> and the text \<open>not found\<close>;
  the success has the whole name \<open>projects/p/messages/123\<close> as its message ID, where the
  claim has \<open>123\<close>. \<open>(*Client).send\<close>, which sends one message, returns for the same
  name what follows its last slash, \<open>123\<close>.
\<close>

theorem batch_message_id_keeps_name:
  "newBatchResponse fakeEnv
     (multipart_response 200 ''200 OK'' ''multipart/mixed; boundary=batch_1'' two_parts_body)
   = Inr \<lparr>SuccessCount = 1, FailureCount = 1,
          Responses =
            [\<lparr>Success = True, MessageID = ''projects/p/messages/123'', ErrorCode = 0, ErrorBody = []\<rparr>,
             \<lparr>Success = False, MessageID = [], ErrorCode = 404, ErrorBody = ''not found''\<rparr>]\<rparr>
   \<and> send_messageID ''projects/p/messages/123'' = ''123''
   \<and> send_messageID ''projects/p/messages/123'' \<noteq> ''projects/p/messages/123''"
  by code_simp

subsection \<open>Decimal numerals\<close>

lemma digit_value: "n < 10 \<Longrightarrow> digit_of (''0123456789'' ! n) = Some n"
proof -
  assume "n < 10"
  then have "n \<in> {0, 1, 2, 3, 4, 5, 6, 7, 8, 9}" by auto
  then show ?thesis
    by (auto simp: digit_of_def upt_rec)
qed

lemma read_nat_from_append:
  "read_nat_from n (s @ t) = (case read_nat_from n s of None \<Rightarrow> None | Some k \<Rightarrow> read_nat_from k t)"
  by (induction s arbitrary: n) (simp_all split: option.splits)

lemma read_nat_from_show_nat: "read_nat_from k (show_nat n) = Some (k * 10 ^ length (show_nat n) + n)"
proof (induction n arbitrary: k rule: show_nat.induct)
  case (1 n)
  show ?case
  proof (cases "n < 10")
    case True
    then show ?thesis
      by (subst (1 2) show_nat.simps) (simp add: digit_value)
  next
    case False
    have d: "n mod 10 < 10" by simp
    from False have s: "show_nat n = show_nat (n div 10) @ [''0123456789'' ! (n mod 10)]"
      by (subst show_nat.simps) simp
    show ?thesis
      using False 1 [OF False, of k]
      by (simp add: s read_nat_from_append digit_value [OF d] algebra_simps)
  qed
qed

lemma show_nat_not_Nil: "show_nat n \<noteq> []"
  by (subst show_nat.simps) simp

lemma read_nat_show_nat: "read_nat (show_nat n) = Some n"
  by (simp add: read_nat_def show_nat_not_Nil read_nat_from_show_nat)

subsection \<open>The multipart envelope\<close>

lemma part_header_explicit:
  assumes "writer_facts L"
  shows "part_header L b idx =
    [''Content-Length'' \<mapsto> [show_nat (length b)], ''Content-Type'' \<mapsto> [''application/http''],
     ''Content-Id'' \<mapsto> [show_nat (idx + 1)], ''Content-Transfer-Encoding'' \<mapsto> [''binary'']]"
  using assms by (simp add: writer_facts_def part_header_def Header_Add_def)

lemma writeParts_Inr:
  "writeParts L ps idx writer = Inr writer' \<Longrightarrow>
   w_boundary writer' = w_boundary writer \<and>
   (\<exists>new. w_parts writer' = w_parts writer @ new \<and> length new = length ps \<and>
      (\<forall>i<length ps. \<exists>b. part_bytes L (ps ! i) = Inr b \<and> new ! i = (part_header L b (idx + i), b)))"
proof (induction ps arbitrary: idx writer)
  case Nil
  then show ?case by simp
next
  case (Cons p ps)
  from Cons.prems obtain b where b: "part_bytes L p = Inr b"
    by (auto simp: part_writeTo_def split: sum.splits)
  let ?w = "writer\<lparr>w_parts := w_parts writer @ [(part_header L b idx, b)]\<rparr>"
  from Cons.prems b have rest: "writeParts L ps (idx + 1) ?w = Inr writer'"
    by (simp add: part_writeTo_def)
  from Cons.IH [OF rest] obtain new where
    bd: "w_boundary writer' = w_boundary writer" and
    ps: "w_parts writer' = (w_parts writer @ [(part_header L b idx, b)]) @ new" and
    len: "length new = length ps" and
    each: "\<forall>i<length ps. \<exists>b. part_bytes L (ps ! i) = Inr b \<and> new ! i = (part_header L b (idx + 1 + i), b)"
    by auto
  let ?new = "(part_header L b idx, b) # new"
  have "w_parts writer' = w_parts writer @ ?new" using ps by simp
  moreover have "length ?new = length (p # ps)" using len by simp
  moreover have "\<forall>i<length (p # ps). \<exists>b'. part_bytes L ((p # ps) ! i) = Inr b' \<and>
      ?new ! i = (part_header L b' (idx + i), b')"
  proof (intro allI impI)
    fix i
    assume i: "i < length (p # ps)"
    show "\<exists>b'. part_bytes L ((p # ps) ! i) = Inr b' \<and> ?new ! i = (part_header L b' (idx + i), b')"
    proof (cases i)
      case 0
      with b show ?thesis by simp
    next
      case (Suc j)
      with i have "j < length ps" by simp
      with each obtain b' where "part_bytes L (ps ! j) = Inr b'"
        "new ! j = (part_header L b' (idx + 1 + j), b')" by blast
      with Suc show ?thesis by simp
    qed
  qed
  ultimately show ?case using bd by blast
qed

lemma writeParts_total:
  "\<forall>p \<in> set ps. \<exists>b. part_bytes L p = Inr b \<Longrightarrow> \<exists>writer'. writeParts L ps idx writer = Inr writer'"
proof (induction ps arbitrary: idx writer)
  case Nil
  then show ?case by simp
next
  case (Cons p ps)
  from Cons.prems obtain b where b: "part_bytes L p = Inr b" by auto
  from Cons.prems have "\<forall>p \<in> set ps. \<exists>b. part_bytes L p = Inr b" by simp
  from Cons.IH [OF this] b show ?case by (simp add: part_writeTo_def)
qed

text \<open>
  Claim C8. When \<open>Bytes\<close> builds a body for a sequence of parts, the body is what the
  multipart writer wrote for the boundary \<open>__END_OF_PART__\<close> (the boundary that \<open>Mime\<close>
  announces) and one part per item, in input order. The part at position \<open>i\<close> (from
  0) has exactly four headers: \<open>Content-Length\<close> with the decimal length of the encoded
  request of item \<open>i\<close>, \<open>Content-Type: application/http\<close>, \<open>Content-Id\<close> with the
  decimal numeral of \<open>i + 1\<close>, and \<open>Content-Transfer-Encoding: binary\<close>; its content is that
  encoded request. This rests on two facts of the standard library (\<open>writer_facts\<close>): the
  four header names are in canonical form, and \<open>SetBoundary\<close> accepts the boundary. A body
  is built whenever every item can be encoded.
\<close>

theorem multipart_parts:
  "(writer_facts L \<and> multipartEntity_Bytes L ps = Inr body \<longrightarrow>
      (\<exists>writer.
         multipartEntity_Writer L ps = Inr writer \<and>
         body = Writer_output L ''__END_OF_PART__'' (w_parts writer) \<and>
         w_boundary writer = ''__END_OF_PART__'' \<and>
         length (w_parts writer) = length ps \<and>
         (\<forall>i<length ps. \<exists>b.
            part_bytes L (ps ! i) = Inr b \<and>
            w_parts writer ! i =
              ([''Content-Length'' \<mapsto> [show_nat (length b)],
                ''Content-Type'' \<mapsto> [''application/http''],
                ''Content-Id'' \<mapsto> [show_nat (i + 1)],
                ''Content-Transfer-Encoding'' \<mapsto> [''binary'']], b) \<and>
            read_nat (show_nat (length b)) = Some (length b) \<and>
            read_nat (show_nat (i + 1)) = Some (i + 1))))
   \<and> ((\<forall>p \<in> set ps. \<exists>b. part_bytes L p = Inr b) \<longrightarrow>
        (\<exists>body. multipartEntity_Bytes L ps = Inr body))
   \<and> multipartEntity_Mime = ''multipart/mixed; boundary=__END_OF_PART__''"
proof (intro conjI impI)
  assume h: "writer_facts L \<and> multipartEntity_Bytes L ps = Inr body"
  then obtain writer where
    w: "multipartEntity_Writer L ps = Inr writer" and
    body: "body = Writer_output L (w_boundary writer) (w_parts writer)"
    by (auto simp: multipartEntity_Bytes_def split: sum.splits)
  let ?w0 = "SetBoundary L (NewWriter L) multipartBoundary"
  from h have w0: "w_boundary ?w0 = ''__END_OF_PART__''" "w_parts ?w0 = []"
    by (simp_all add: SetBoundary_def NewWriter_def writer_facts_def multipartBoundary_def)
  from w have "writeParts L ps 0 ?w0 = Inr writer"
    by (simp add: multipartEntity_Writer_def)
  from writeParts_Inr [OF this] w0 obtain new where
    bd: "w_boundary writer = ''__END_OF_PART__''" and
    parts: "w_parts writer = new" and
    len: "length new = length ps" and
    each: "\<forall>i<length ps. \<exists>b. part_bytes L (ps ! i) = Inr b \<and> new ! i = (part_header L b (0 + i), b)"
    by auto
  from h have facts: "writer_facts L" by simp
  have "\<forall>i<length ps. \<exists>b.
            part_bytes L (ps ! i) = Inr b \<and>
            w_parts writer ! i =
              ([''Content-Length'' \<mapsto> [show_nat (length b)],
                ''Content-Type'' \<mapsto> [''application/http''],
                ''Content-Id'' \<mapsto> [show_nat (i + 1)],
                ''Content-Transfer-Encoding'' \<mapsto> [''binary'']], b) \<and>
            read_nat (show_nat (length b)) = Some (length b) \<and>
            read_nat (show_nat (i + 1)) = Some (i + 1)"
    using each parts by (simp add: part_header_explicit [OF facts] read_nat_show_nat)
  with w body bd parts len show "\<exists>writer.
         multipartEntity_Writer L ps = Inr writer \<and>
         body = Writer_output L ''__END_OF_PART__'' (w_parts writer) \<and>
         w_boundary writer = ''__END_OF_PART__'' \<and>
         length (w_parts writer) = length ps \<and>
         (\<forall>i<length ps. \<exists>b.
            part_bytes L (ps ! i) = Inr b \<and>
            w_parts writer ! i =
              ([''Content-Length'' \<mapsto> [show_nat (length b)],
                ''Content-Type'' \<mapsto> [''application/http''],
                ''Content-Id'' \<mapsto> [show_nat (i + 1)],
                ''Content-Transfer-Encoding'' \<mapsto> [''binary'']], b) \<and>
            read_nat (show_nat (length b)) = Some (length b) \<and>
            read_nat (show_nat (i + 1)) = Some (i + 1))"
    by auto
next
  assume "\<forall>p \<in> set ps. \<exists>b. part_bytes L p = Inr b"
  from writeParts_total [OF this, of 0 "SetBoundary L (NewWriter L) multipartBoundary"]
  show "\<exists>body. multipartEntity_Bytes L ps = Inr body"
    by (auto simp: multipartEntity_Bytes_def multipartEntity_Writer_def)
next
  show "multipartEntity_Mime = ''multipart/mixed; boundary=__END_OF_PART__''"
    by (simp add: multipartEntity_Mime_def multipartBoundary_def)
qed

lemma fakeEnv_writer_facts: "writer_facts fakeEnv"
  by (simp add: writer_facts_def fakeEnv_def multipartBoundary_def)

lemma fake_part_encodes: "\<exists>b. part_bytes fakeEnv (part_for t) = Inr b"
  by (simp add: part_bytes_def part_request_def http_NewRequest_def fakeEnv_def part_for_def
      fake_Marshal_def fake_Write_def)

theorem multipart_parts_witness:
  "writer_facts fakeEnv
   \<and> (\<exists>body writer.
        multipartEntity_Bytes fakeEnv [part_for ''a'', part_for ''b''] = Inr body \<and>
        multipartEntity_Writer fakeEnv [part_for ''a'', part_for ''b''] = Inr writer \<and>
        body = Writer_output fakeEnv ''__END_OF_PART__'' (w_parts writer) \<and>
        length (w_parts writer) = 2 \<and>
        fst (w_parts writer ! 0) ''Content-Id'' = Some [''1''] \<and>
        fst (w_parts writer ! 1) ''Content-Id'' = Some [''2''] \<and>
        fst (w_parts writer ! 1) ''Content-Type'' = Some [''application/http''] \<and>
        fst (w_parts writer ! 1) ''User-Agent'' = None)"
proof -
  let ?ps = "[part_for ''a'', part_for ''b'']"
  have enc: "\<forall>p \<in> set ?ps. \<exists>b. part_bytes fakeEnv p = Inr b"
    using fake_part_encodes by simp
  with multipart_parts [of fakeEnv ?ps] obtain body where
    body: "multipartEntity_Bytes fakeEnv ?ps = Inr body" by blast
  with multipart_parts [of fakeEnv ?ps body] fakeEnv_writer_facts obtain writer where
    w: "multipartEntity_Writer fakeEnv ?ps = Inr writer"
      "body = Writer_output fakeEnv ''__END_OF_PART__'' (w_parts writer)"
      "length (w_parts writer) = length ?ps" and
    each: "\<forall>i<length ?ps. \<exists>b.
            part_bytes fakeEnv (?ps ! i) = Inr b \<and>
            w_parts writer ! i =
              ([''Content-Length'' \<mapsto> [show_nat (length b)],
                ''Content-Type'' \<mapsto> [''application/http''],
                ''Content-Id'' \<mapsto> [show_nat (i + 1)],
                ''Content-Transfer-Encoding'' \<mapsto> [''binary'']], b) \<and>
            read_nat (show_nat (length b)) = Some (length b) \<and>
            read_nat (show_nat (i + 1)) = Some (i + 1)"
    by blast
  from each have "\<exists>b. w_parts writer ! 0 =
              ([''Content-Length'' \<mapsto> [show_nat (length b)],
                ''Content-Type'' \<mapsto> [''application/http''],
                ''Content-Id'' \<mapsto> [show_nat (0 + 1)],
                ''Content-Transfer-Encoding'' \<mapsto> [''binary'']], b)"
    by auto
  then have p0: "fst (w_parts writer ! 0) ''Content-Id'' = Some [''1'']"
    by (auto simp: show_nat.simps)
  from each have "\<exists>b. w_parts writer ! 1 =
              ([''Content-Length'' \<mapsto> [show_nat (length b)],
                ''Content-Type'' \<mapsto> [''application/http''],
                ''Content-Id'' \<mapsto> [show_nat (1 + 1)],
                ''Content-Transfer-Encoding'' \<mapsto> [''binary'']], b)"
    by auto
  then have p1: "fst (w_parts writer ! 1) ''Content-Id'' = Some [''2'']"
      "fst (w_parts writer ! 1) ''Content-Type'' = Some [''application/http'']"
      "fst (w_parts writer ! 1) ''User-Agent'' = None"
    by (auto simp: show_nat.simps)
  from fakeEnv_writer_facts body w p0 p1 show ?thesis by auto
qed

subsection \<open>The part encoder\<close>

lemma chars_notin:
  "list_all (\<lambda>c. c \<in> set S) s \<Longrightarrow> x \<notin> set S \<Longrightarrow> x \<notin> set s"
  by (auto simp: list_all_iff)

lemma ends_notin:
  "list_all (\<lambda>c. c \<in> set S) s \<Longrightarrow> s \<noteq> [] \<Longrightarrow> x \<notin> set S \<Longrightarrow> hd s \<noteq> x \<and> last s \<noteq> x"
proof -
  assume a: "list_all (\<lambda>c. c \<in> set S) s" and ne: "s \<noteq> []" and x: "x \<notin> set S"
  from ne have "hd s \<in> set s" "last s \<in> set s" by simp_all
  with chars_notin [OF a x] show ?thesis by auto
qed

lemma show_nat_digits: "list_all (\<lambda>c. c \<in> set ''0123456789'') (show_nat n)"
proof -
  define P where "P = (\<lambda>c :: char. c \<in> set ''0123456789'')"
  have d: "P (''0123456789'' ! k)" if "k < 10" for k
    unfolding P_def using that by (intro nth_mem) simp
  have "list_all P (show_nat n)"
  proof (induction n rule: show_nat.induct)
    case (1 n)
    show ?case
    proof (cases "n < 10")
      case True
      then have "show_nat n = [''0123456789'' ! n]"
        by (subst show_nat.simps) (simp only: if_True)
      with d [OF True] show ?thesis by simp
    next
      case False
      then have s: "show_nat n = show_nat (n div 10) @ [''0123456789'' ! (n mod 10)]"
        by (subst show_nat.simps) (simp only: if_False)
      have "n mod 10 < 10" by simp
      from d [OF this] 1 [OF False] show ?thesis
        by (simp add: s)
    qed
  qed
  then show ?thesis by (simp only: P_def)
qed

lemma header_field_show_nat: "k \<noteq> [] \<Longrightarrow> CHR '':'' \<notin> set k \<Longrightarrow> CHR 0x0A \<notin> set k \<Longrightarrow>
  header_field (k, show_nat n)"
proof -
  assume k: "k \<noteq> []" "CHR '':'' \<notin> set k" "CHR 0x0A \<notin> set k"
  note d = show_nat_digits [of n]
  have ne: "show_nat n \<noteq> []" by (rule show_nat_not_Nil)
  have nl: "CHR 0x0A \<notin> set (show_nat n)"
    by (rule chars_notin [OF d]) simp
  have sp: "hd (show_nat n) \<noteq> CHR '' '' \<and> last (show_nat n) \<noteq> CHR '' ''"
    by (rule ends_notin [OF d ne]) simp
  have tb: "hd (show_nat n) \<noteq> CHR 0x09 \<and> last (show_nat n) \<noteq> CHR 0x09"
    by (rule ends_notin [OF d ne]) simp
  have cr: "hd (show_nat n) \<noteq> CHR 0x0D \<and> last (show_nat n) \<noteq> CHR 0x0D"
    by (rule ends_notin [OF d ne]) simp
  from k ne nl sp tb cr show ?thesis by (simp add: header_field_def)
qed

lemma header_field_host: "host_name host \<Longrightarrow> header_field (''Host'', host)"
proof -
  assume h: "host_name host"
  then have ne: "host \<noteq> []" unfolding host_name_def by blast
  from h have d: "list_all (\<lambda>c. c \<in> set ''abcdefghijklmnopqrstuvwxyz0123456789-.'') host"
    unfolding host_name_def by blast
  have nl: "CHR 0x0A \<notin> set host"
    by (rule chars_notin [OF d]) simp
  have sp: "hd host \<noteq> CHR '' '' \<and> last host \<noteq> CHR '' ''"
    by (rule ends_notin [OF d ne]) simp
  have tb: "hd host \<noteq> CHR 0x09 \<and> last host \<noteq> CHR 0x09"
    by (rule ends_notin [OF d ne]) simp
  have cr: "hd host \<noteq> CHR 0x0D \<and> last host \<noteq> CHR 0x0D"
    by (rule ends_notin [OF d ne]) simp
  from ne nl sp tb cr show ?thesis by (simp add: header_field_def)
qed

lemma url_path_chars:
  "url_path path \<Longrightarrow> take 1 path = ''/'' \<and> CHR '' '' \<notin> set path \<and> CHR 0x0A \<notin> set path"
proof -
  assume h: "url_path path"
  then have t: "take 1 path = ''/''" unfolding url_path_def by blast
  from h have d: "list_all (\<lambda>c. c \<in> set
      ''ABCDEFGHIJKLMNOPQRSTUVWXYZabcdefghijklmnopqrstuvwxyz0123456789-._~/:'') path"
    unfolding url_path_def by blast
  have sp: "CHR '' '' \<notin> set path"
    by (rule chars_notin [OF d]) simp
  have nl: "CHR 0x0A \<notin> set path"
    by (rule chars_notin [OF d]) simp
  from t sp nl show ?thesis by simp
qed

lemma take_line_crlf:
  assumes "CHR 0x0A \<notin> set l"
  shows "take_line (l @ crlf @ rest) = Some (l, rest)"
proof -
  from assms have all: "\<forall>x \<in> set l. x \<noteq> CHR 0x0A" by auto
  have t: "takeWhile (\<lambda>c. c \<noteq> CHR 0x0A) (l @ crlf @ rest) = l @ [CHR 0x0D]"
    using all by (simp add: takeWhile_append2 crlf_def)
  have d: "dropWhile (\<lambda>c. c \<noteq> CHR 0x0A) (l @ crlf @ rest) = CHR 0x0A # rest"
    using all by (simp add: dropWhile_append2 crlf_def)
  have "CHR 0x0A \<in> set (l @ crlf @ rest)" by (simp add: crlf_def)
  then show ?thesis unfolding take_line_def t d by simp
qed

lemma trim_blanks_value:
  assumes "v \<noteq> []" and "hd v \<noteq> CHR '' ''" and "hd v \<noteq> CHR 0x09"
    and "last v \<noteq> CHR '' ''" and "last v \<noteq> CHR 0x09"
  shows "trim_blanks (CHR '' '' # v) = v"
proof -
  from assms(1) obtain x xs where hd: "v = x # xs" by (cases v) auto
  from assms(1) obtain ys y where la: "v = ys @ [y]" by (cases v rule: rev_cases) auto
  from hd assms(2,3) have "dropWhile (\<lambda>c. c = CHR '' '' \<or> c = CHR 0x09) v = v" by simp
  moreover from la assms(4,5) have
    "dropWhile (\<lambda>c. c = CHR '' '' \<or> c = CHR 0x09) (rev v) = rev v" by simp
  ultimately show ?thesis by (simp add: trim_blanks_def)
qed

lemma split_header_line:
  assumes "header_field (k, v)"
  shows "split_header (k @ '': '' @ v) = Some (k, v)"
proof -
  from assms have k: "k \<noteq> []" "\<forall>x \<in> set k. x \<noteq> CHR '':''"
    by (auto simp: header_field_def)
  from assms have tr: "trim_blanks (CHR '' '' # v) = v"
    by (intro trim_blanks_value) (simp_all add: header_field_def)
  have t: "takeWhile (\<lambda>c. c \<noteq> CHR '':'') (k @ '': '' @ v) = k"
    using k by (simp add: takeWhile_append2)
  have d: "dropWhile (\<lambda>c. c \<noteq> CHR '':'') (k @ '': '' @ v) = CHR '':'' # CHR '' '' # v"
    using k by (simp add: dropWhile_append2)
  have "CHR '':'' \<in> set (k @ '': '' @ v)" by simp
  then show ?thesis unfolding split_header_def t d using k tr by simp
qed

lemma read_header_lines_block:
  assumes "\<forall>kv \<in> set kvs. header_field kv"
  shows "read_header_lines (concat (map header_line kvs) @ crlf @ rest) = Some (kvs, rest)"
  using assms
proof (induction kvs)
  case Nil
  have "take_line ([] @ crlf @ rest) = Some ([], rest)"
    by (rule take_line_crlf) simp
  then show ?case by (subst read_header_lines.simps) simp
next
  case (Cons kv kvs)
  obtain k v where kv: "kv = (k, v)" by (cases kv)
  from Cons.prems kv have f: "header_field (k, v)" by simp
  let ?l = "k @ '': '' @ v"
  let ?rest = "concat (map header_line kvs) @ crlf @ rest"
  from f have nl: "CHR 0x0A \<notin> set ?l" by (simp add: header_field_def)
  from f have ne: "?l \<noteq> []" by (simp add: header_field_def)
  have shape: "concat (map header_line (kv # kvs)) @ crlf @ rest = ?l @ crlf @ ?rest"
    by (simp add: kv header_line_def)
  have tl: "take_line (?l @ crlf @ ?rest) = Some (?l, ?rest)"
    using nl by (rule take_line_crlf)
  have sh: "split_header ?l = Some (k, v)"
    using f by (rule split_header_line)
  from Cons.prems have ih: "read_header_lines ?rest = Some (kvs, rest)"
    by (intro Cons.IH) simp
  show ?case
    unfolding shape
    by (subst read_header_lines.simps) (simp only: tl sh ih ne kv option.case prod.case if_False)
qed

lemma ReadRequest_http11:
  assumes m: "m \<noteq> []" "CHR '' '' \<notin> set m" "CHR 0x0A \<notin> set m"
    and ruri: "take 1 ruri = ''/''" "CHR '' '' \<notin> set ruri" "CHR 0x0A \<notin> set ruri"
    and fields: "\<forall>kv \<in> set ((''Host'', host) # kvs). header_field kv"
  shows "ReadRequest L (http11_request m ruri host kvs b) =
     (case request_body L
             (fold (\<lambda>(key, v) h. Header_Add L h key v) ((''Host'', host) # kvs) Map.empty) b of
        Inl err \<Rightarrow> Inl err
      | Inr rd \<Rightarrow>
          Inr \<lparr>pr_Method = m, pr_RequestURI = ruri, pr_Proto = ''HTTP/1.1'',
               pr_Host =
                 Header_Get L
                   (fold (\<lambda>(key, v) h. Header_Add L h key v) ((''Host'', host) # kvs) Map.empty)
                   ''Host'',
               pr_Header =
                 (fold (\<lambda>(key, v) h. Header_Add L h key v) ((''Host'', host) # kvs) Map.empty)
                   (CanonicalMIMEHeaderKey L ''Host'' := None),
               pr_Body = rd\<rparr>)"
proof -
  let ?rl = "m @ '' '' @ ruri @ '' HTTP/1.1''"
  let ?rest = "concat (map header_line ((''Host'', host) # kvs)) @ crlf @ b"
  have shape: "http11_request m ruri host kvs b = ?rl @ crlf @ ?rest"
    by (simp add: http11_request_def)
  from m ruri have nl: "CHR 0x0A \<notin> set ?rl" by simp
  have tl: "take_line (?rl @ crlf @ ?rest) = Some (?rl, ?rest)"
    using nl by (rule take_line_crlf)
  from m have mall: "\<forall>x \<in> set m. x \<noteq> CHR '' ''" by auto
  from ruri have rall: "\<forall>x \<in> set ruri. x \<noteq> CHR '' ''" by auto
  have t1: "takeWhile (\<lambda>c. c \<noteq> CHR '' '') ?rl = m"
    using mall by (simp add: takeWhile_append2)
  have d1: "tl (dropWhile (\<lambda>c. c \<noteq> CHR '' '') ?rl) = ruri @ '' HTTP/1.1''"
    using mall by (simp add: dropWhile_append2)
  have t2: "takeWhile (\<lambda>c. c \<noteq> CHR '' '') (ruri @ '' HTTP/1.1'') = ruri"
    using rall by (simp add: takeWhile_append2)
  have d2: "tl (dropWhile (\<lambda>c. c \<noteq> CHR '' '') (ruri @ '' HTTP/1.1'')) = ''HTTP/1.1''"
    using rall by (simp add: dropWhile_append2)
  have sp: "CHR '' '' \<in> set ?rl" "CHR '' '' \<in> set (ruri @ '' HTTP/1.1'')" by simp_all
  have hl: "read_header_lines ?rest = Some ((''Host'', host) # kvs, b)"
    using fields by (rule read_header_lines_block)
  show ?thesis
    unfolding shape ReadRequest_def tl
    by (simp only: option.case prod.case Let_def t1 d1 t2 d2 sp hl m ruri)
      (simp split: sum.splits)
qed


lemma built_part_request:
  assumes "request_writer_facts L"
    and "NewRequest_error L ''POST'' (sendEndpoint c) = None"
    and "json_Marshal L \<lparr>ValidateOnly = dryRun, fr_Message = m\<rparr> = Inr b"
  shows "part_request L (batch_part c dryRun m) =
     Inr \<lparr>req_Method = ''POST'', req_URL = sendEndpoint c,
          req_Header = [''X-Goog-Api-Format-Version'' \<mapsto> [apiFormatVersion],
                        ''Content-Type'' \<mapsto> [''application/json; charset=UTF-8''],
                        ''User-Agent'' \<mapsto> [[]]],
          req_Body = b\<rparr>"
proof -
  from assms(1) have canon:
    "CanonicalMIMEHeaderKey L apiFormatVersionHeader = ''X-Goog-Api-Format-Version''"
    "CanonicalMIMEHeaderKey L ''Content-Type'' = ''Content-Type''"
    "CanonicalMIMEHeaderKey L ''User-Agent'' = ''User-Agent''"
    unfolding request_writer_facts_def by blast+
  show ?thesis
    using assms(2,3)
    by (simp add: part_request_def http_NewRequest_def batch_part_def Header_Set_def canon)
qed

lemma read_built_part:
  assumes facts: "request_writer_facts L"
    and host: "host_name host" and path: "url_path path"
  shows "ReadRequest L
           (http11_request ''POST'' path host
              [(''Content-Length'', show_nat (length b)),
               (''Content-Type'', ''application/json; charset=UTF-8''),
               (''X-Goog-Api-Format-Version'', apiFormatVersion)] b)
         = Inr \<lparr>pr_Method = ''POST'', pr_RequestURI = path, pr_Proto = ''HTTP/1.1'',
                pr_Host = host,
                pr_Header = [''Content-Length'' \<mapsto> [show_nat (length b)],
                             ''Content-Type'' \<mapsto> [''application/json; charset=UTF-8''],
                             ''X-Goog-Api-Format-Version'' \<mapsto> [''2'']],
                pr_Body = Reader b None\<rparr>"
proof -
  let ?kvs = "[(''Content-Length'', show_nat (length b)),
               (''Content-Type'', ''application/json; charset=UTF-8''),
               (''X-Goog-Api-Format-Version'', apiFormatVersion)]"
  from facts have canon:
    "CanonicalMIMEHeaderKey L ''X-Goog-Api-Format-Version'' = ''X-Goog-Api-Format-Version''"
    "CanonicalMIMEHeaderKey L ''Content-Type'' = ''Content-Type''"
    "CanonicalMIMEHeaderKey L ''Content-Length'' = ''Content-Length''"
    "CanonicalMIMEHeaderKey L ''Host'' = ''Host''"
    unfolding request_writer_facts_def by blast+
  have f1: "header_field (''Host'', host)"
    using host by (rule header_field_host)
  have f2: "header_field (''Content-Length'', show_nat (length b))"
    by (rule header_field_show_nat) simp_all
  have f3: "header_field (''Content-Type'', ''application/json; charset=UTF-8'')"
    by (simp add: header_field_def)
  have f4: "header_field (''X-Goog-Api-Format-Version'', apiFormatVersion)"
    by (simp add: header_field_def apiFormatVersion_def)
  from f1 f2 f3 f4 have fields: "\<forall>kv \<in> set ((''Host'', host) # ?kvs). header_field kv"
    by simp
  have m: "''POST'' \<noteq> []" "CHR '' '' \<notin> set ''POST''" "CHR 0x0A \<notin> set ''POST''"
    by simp_all
  from url_path_chars [OF path] have
    ruri: "take 1 path = ''/''" "CHR '' '' \<notin> set path" "CHR 0x0A \<notin> set path"
    by blast+
  have hdr: "fold (\<lambda>(key, v) h. Header_Add L h key v) ((''Host'', host) # ?kvs) Map.empty
      = [''Host'' \<mapsto> [host], ''Content-Length'' \<mapsto> [show_nat (length b)],
         ''Content-Type'' \<mapsto> [''application/json; charset=UTF-8''],
         ''X-Goog-Api-Format-Version'' \<mapsto> [''2'']]"
    by (simp add: Header_Add_def canon apiFormatVersion_def)
  have body: "request_body L
      [''Host'' \<mapsto> [host], ''Content-Length'' \<mapsto> [show_nat (length b)],
       ''Content-Type'' \<mapsto> [''application/json; charset=UTF-8''],
       ''X-Goog-Api-Format-Version'' \<mapsto> [''2'']] b = Inr (Reader b None)"
    by (simp add: request_body_def canon read_nat_show_nat)
  have get: "Header_Get L
      [''Host'' \<mapsto> [host], ''Content-Length'' \<mapsto> [show_nat (length b)],
       ''Content-Type'' \<mapsto> [''application/json; charset=UTF-8''],
       ''X-Goog-Api-Format-Version'' \<mapsto> [''2'']] ''Host'' = host"
    by (simp add: Header_Get_def canon)
  have del: "[''Host'' \<mapsto> [host], ''Content-Length'' \<mapsto> [show_nat (length b)],
       ''Content-Type'' \<mapsto> [''application/json; charset=UTF-8''],
       ''X-Goog-Api-Format-Version'' \<mapsto> [''2'']](''Host'' := None)
     = [''Content-Length'' \<mapsto> [show_nat (length b)],
        ''Content-Type'' \<mapsto> [''application/json; charset=UTF-8''],
        ''X-Goog-Api-Format-Version'' \<mapsto> [''2'']]"
    by (rule ext) simp
  show ?thesis
    unfolding ReadRequest_http11 [OF m ruri fields] hdr body get canon del
    by simp
qed

lemma chars_notin_slash:
  "host_name host \<Longrightarrow> \<forall>x \<in> set host. x \<noteq> CHR ''/''"
proof -
  assume h: "host_name host"
  then have d: "list_all (\<lambda>c. c \<in> set ''abcdefghijklmnopqrstuvwxyz0123456789-.'') host"
    unfolding host_name_def by blast
  have "CHR ''/'' \<notin> set host"
    by (rule chars_notin [OF d]) simp
  then show ?thesis by auto
qed

lemma fake_Write_built:
  assumes host: "host_name host" and path: "url_path path"
  shows "fake_Write
           \<lparr>req_Method = ''POST'', req_URL = ''https://'' @ host @ path,
            req_Header = [''X-Goog-Api-Format-Version'' \<mapsto> [apiFormatVersion],
                          ''Content-Type'' \<mapsto> [''application/json; charset=UTF-8''],
                          ''User-Agent'' \<mapsto> [[]]],
            req_Body = b\<rparr>
         = Inr (http11_request ''POST'' path host
                 [(''Content-Length'', show_nat (length b)),
                  (''Content-Type'', ''application/json; charset=UTF-8''),
                  (''X-Goog-Api-Format-Version'', apiFormatVersion)] b)"
proof -
  from url_path_chars [OF path] have "take 1 path = ''/''" by blast
  then obtain p where p: "path = CHR ''/'' # p" by (cases path) auto
  note all = chars_notin_slash [OF host]
  have rest: "fake_url_rest (''https://'' @ host @ path) = host @ path"
    by (simp add: fake_url_rest_def)
  have h: "fake_url_host (''https://'' @ host @ path) = host"
    unfolding fake_url_host_def rest using all by (simp add: takeWhile_append2 p)
  have q: "fake_url_path (''https://'' @ host @ path) = path"
    unfolding fake_url_path_def rest using all by (simp add: dropWhile_append2 p)
  show ?thesis
    unfolding fake_Write_def
    by (simp add: h q header_pairs_def del: append.simps) simp
qed

lemma fakeEnv_request_writer_facts: "request_writer_facts fakeEnv"
proof -
  have c1: "fake_canon_from True apiFormatVersionHeader = ''X-Goog-Api-Format-Version''"
    by code_simp
  have c2: "fake_canon_from True ''X-Goog-Api-Format-Version'' = ''X-Goog-Api-Format-Version''"
    by code_simp
  have c3: "fake_canon_from True ''Content-Type'' = ''Content-Type''"
    by code_simp
  have c4: "fake_canon_from True ''Content-Length'' = ''Content-Length''"
    by code_simp
  have c5: "fake_canon_from True ''User-Agent'' = ''User-Agent''"
    by code_simp
  have c6: "fake_canon_from True ''Host'' = ''Host''"
    by code_simp
  show ?thesis
    unfolding request_writer_facts_def
    using fake_Write_built
    by (simp add: fakeEnv_def c1 c2 c3 c4 c5 c6 del: fake_canon_from.simps)
qed

text \<open>
  Claim C9, as the code has it, for the items that \<open>newBatchRequest\<close> builds: the method
  \<open>POST\<close>, the send endpoint \<open>https://host/path\<close> (a host of small letters, digits,
  hyphens and dots, a path of letters, digits and \<open>-._~/:\<close>), the one header
  \<open>X-GOOG-API-FORMAT-VERSION: 2\<close> and a body that \<open>json.Marshal\<close> encodes. The encoder
  writes the request line with the path, the \<open>Host\<close> line, \<open>Content-Length\<close>,
  \<open>Content-Type\<close> and the version header, an empty line and the JSON text. Reading
  these bytes as an HTTP/1.1 request gives back the method and the JSON text, byte for
  byte. Of the URL it gives back the path, as the request URI, and the host, in the
  \<open>Host\<close> field; the scheme is not written. The headers it gives back are the item's
  header under its canonical name \<open>X-Goog-Api-Format-Version\<close>, the \<open>Content-Type\<close>
  \<open>application/json; charset=UTF-8\<close> that the encoder sets, and the \<open>Content-Length\<close>
  that \<open>Request.Write\<close> adds; the empty \<open>User-Agent\<close> is not written.
\<close>

theorem part_encoding_roundtrip:
  assumes "request_writer_facts L"
    and "host_name host" and "url_path path"
    and "sendEndpoint c = ''https://'' @ host @ path"
    and "NewRequest_error L ''POST'' (sendEndpoint c) = None"
    and "json_Marshal L \<lparr>ValidateOnly = dryRun, fr_Message = m\<rparr> = Inr b"
  shows "\<exists>bs. part_bytes L (batch_part c dryRun m) = Inr bs
          \<and> bs = http11_request ''POST'' path host
                   [(''Content-Length'', show_nat (length b)),
                    (''Content-Type'', ''application/json; charset=UTF-8''),
                    (''X-Goog-Api-Format-Version'', ''2'')] b
          \<and> ReadRequest L bs
              = Inr \<lparr>pr_Method = ''POST'', pr_RequestURI = path, pr_Proto = ''HTTP/1.1'',
                     pr_Host = host,
                     pr_Header = [''Content-Length'' \<mapsto> [show_nat (length b)],
                                  ''Content-Type'' \<mapsto> [''application/json; charset=UTF-8''],
                                  ''X-Goog-Api-Format-Version'' \<mapsto> [''2'']],
                     pr_Body = Reader b None\<rparr>"
proof -
  have rq: "part_request L (batch_part c dryRun m) =
     Inr \<lparr>req_Method = ''POST'', req_URL = ''https://'' @ host @ path,
          req_Header = [''X-Goog-Api-Format-Version'' \<mapsto> [apiFormatVersion],
                        ''Content-Type'' \<mapsto> [''application/json; charset=UTF-8''],
                        ''User-Agent'' \<mapsto> [[]]],
          req_Body = b\<rparr>"
    using built_part_request [OF assms(1,5,6)] assms(4) by (simp del: append.simps)
  from assms(1,2,3) have wr: "Request_Write L
       \<lparr>req_Method = ''POST'', req_URL = ''https://'' @ host @ path,
        req_Header = [''X-Goog-Api-Format-Version'' \<mapsto> [apiFormatVersion],
                      ''Content-Type'' \<mapsto> [''application/json; charset=UTF-8''],
                      ''User-Agent'' \<mapsto> [[]]],
        req_Body = b\<rparr>
     = Inr (http11_request ''POST'' path host
             [(''Content-Length'', show_nat (length b)),
              (''Content-Type'', ''application/json; charset=UTF-8''),
              (''X-Goog-Api-Format-Version'', apiFormatVersion)] b)"
    unfolding request_writer_facts_def by blast
  have enc: "part_bytes L (batch_part c dryRun m)
     = Inr (http11_request ''POST'' path host
             [(''Content-Length'', show_nat (length b)),
              (''Content-Type'', ''application/json; charset=UTF-8''),
              (''X-Goog-Api-Format-Version'', apiFormatVersion)] b)"
    unfolding part_bytes_def rq using wr by (simp del: append.simps)
  from enc read_built_part [OF assms(1,2,3), of b] show ?thesis
    by (simp add: apiFormatVersion_def del: append.simps)
qed


theorem part_encoding_roundtrip_witness:
  "request_writer_facts fakeEnv
   \<and> host_name ''fcm.googleapis.com''
   \<and> url_path ''/v1/projects/p/messages:send''
   \<and> sendEndpoint (fakeClient (Inr ''tok'') (\<lambda>r. Inl (Error ''connection refused'')))
       = ''https://'' @ ''fcm.googleapis.com'' @ ''/v1/projects/p/messages:send''
   \<and> NewRequest_error fakeEnv ''POST''
        (sendEndpoint (fakeClient (Inr ''tok'') (\<lambda>r. Inl (Error ''connection refused'')))) = None
   \<and> json_Marshal fakeEnv \<lparr>ValidateOnly = False, fr_Message = msg_to ''a''\<rparr>
       = Inr (fake_message_json ''a'')
   \<and> part_bytes fakeEnv
        (batch_part (fakeClient (Inr ''tok'') (\<lambda>r. Inl (Error ''connection refused''))) False
          (msg_to ''a''))
       = Inr request_a_bytes
   \<and> ReadRequest fakeEnv request_a_bytes
       = Inr \<lparr>pr_Method = ''POST'', pr_RequestURI = ''/v1/projects/p/messages:send'',
              pr_Proto = ''HTTP/1.1'', pr_Host = ''fcm.googleapis.com'',
              pr_Header = [''Content-Length'' \<mapsto> [''25''],
                           ''Content-Type'' \<mapsto> [''application/json; charset=UTF-8''],
                           ''X-Goog-Api-Format-Version'' \<mapsto> [''2'']],
              pr_Body = Reader (fake_message_json ''a'') None\<rparr>"
proof -
  let ?c = "fakeClient (Inr ''tok'') (\<lambda>r. Inl (Error ''connection refused''))"
  have host: "host_name ''fcm.googleapis.com''"
    by code_simp
  have path: "url_path ''/v1/projects/p/messages:send''"
    by code_simp
  have ep: "sendEndpoint ?c = ''https://'' @ ''fcm.googleapis.com'' @ ''/v1/projects/p/messages:send''"
    by (simp add: fakeClient_def)
  have nr: "NewRequest_error fakeEnv ''POST'' (sendEndpoint ?c) = None"
    by (simp add: fakeEnv_def fakeClient_def)
  have js: "json_Marshal fakeEnv \<lparr>ValidateOnly = False, fr_Message = msg_to ''a''\<rparr>
      = Inr (fake_message_json ''a'')"
    by (simp add: fakeEnv_def fake_Marshal_def fake_message_json_def msg_to_def)
  have len: "show_nat (length (fake_message_json ''a'')) = ''25''"
    by code_simp
  have bytes: "http11_request ''POST'' ''/v1/projects/p/messages:send'' ''fcm.googleapis.com''
       [(''Content-Length'', ''25''),
        (''Content-Type'', ''application/json; charset=UTF-8''),
        (''X-Goog-Api-Format-Version'', ''2'')] (fake_message_json ''a'')
     = request_a_bytes"
    by code_simp
  from part_encoding_roundtrip [OF fakeEnv_request_writer_facts host path ep nr js]
  have enc: "part_bytes fakeEnv (batch_part ?c False (msg_to ''a'')) = Inr request_a_bytes"
    and rd: "ReadRequest fakeEnv request_a_bytes
       = Inr \<lparr>pr_Method = ''POST'', pr_RequestURI = ''/v1/projects/p/messages:send'',
              pr_Proto = ''HTTP/1.1'', pr_Host = ''fcm.googleapis.com'',
              pr_Header = [''Content-Length'' \<mapsto> [''25''],
                           ''Content-Type'' \<mapsto> [''application/json; charset=UTF-8''],
                           ''X-Goog-Api-Format-Version'' \<mapsto> [''2'']],
              pr_Body = Reader (fake_message_json ''a'') None\<rparr>"
    unfolding len bytes by blast+
  from fakeEnv_request_writer_facts host path ep nr js enc rd show ?thesis
    by blast
qed

text \<open>
  Claim C9 as stated fails. For the item that \<open>newBatchRequest\<close> builds for a message to
  the token \<open>a\<close>, the URL is \<open>https://fcm.googleapis.com/v1/projects/p/messages:send\<close> and
  the only header is \<open>X-GOOG-API-FORMAT-VERSION: 2\<close>. The request read from its encoding
  has the request URI \<open>/v1/projects/p/messages:send\<close>, which is not the URL, and the host
  beside it; it has no header of the name \<open>X-GOOG-API-FORMAT-VERSION\<close>, and it has the
  headers \<open>X-Goog-Api-Format-Version\<close>, \<open>Content-Type\<close> and \<open>Content-Length\<close>.
\<close>

theorem roundtrip_url_headers_counterexample:
  "part_url (batch_part (fakeClient (Inr ''tok'') (\<lambda>r. Inl (Error ''connection refused''))) False
      (msg_to ''a''))
     = ''https://fcm.googleapis.com/v1/projects/p/messages:send''
   \<and> part_headers (batch_part (fakeClient (Inr ''tok'') (\<lambda>r. Inl (Error ''connection refused'')))
        False (msg_to ''a''))
     = [(''X-GOOG-API-FORMAT-VERSION'', ''2'')]
   \<and> part_bytes fakeEnv
        (batch_part (fakeClient (Inr ''tok'') (\<lambda>r. Inl (Error ''connection refused''))) False
          (msg_to ''a''))
     = Inr request_a_bytes
   \<and> \<not> isl (ReadRequest fakeEnv request_a_bytes)
   \<and> pr_Method (projr (ReadRequest fakeEnv request_a_bytes)) = ''POST''
   \<and> pr_RequestURI (projr (ReadRequest fakeEnv request_a_bytes)) = ''/v1/projects/p/messages:send''
   \<and> pr_RequestURI (projr (ReadRequest fakeEnv request_a_bytes))
       \<noteq> ''https://fcm.googleapis.com/v1/projects/p/messages:send''
   \<and> pr_Host (projr (ReadRequest fakeEnv request_a_bytes)) = ''fcm.googleapis.com''
   \<and> pr_Header (projr (ReadRequest fakeEnv request_a_bytes)) ''X-GOOG-API-FORMAT-VERSION'' = None
   \<and> pr_Header (projr (ReadRequest fakeEnv request_a_bytes)) ''X-Goog-Api-Format-Version''
       = Some [''2'']
   \<and> pr_Header (projr (ReadRequest fakeEnv request_a_bytes)) ''Content-Type''
       = Some [''application/json; charset=UTF-8'']
   \<and> pr_Header (projr (ReadRequest fakeEnv request_a_bytes)) ''Content-Length'' = Some [''25'']"
  by code_simp

end
